theory Spec2Isabelle
  imports Main "HOL-Library.Sublist"
begin

section \<open>The bridge service: data model\<close>

text \<open>
  The bridge service keeps review sessions in Redis, drives each one through the
  Council (analysis) and the Sandbox (execution) services in a background task
  \<open>processReview\<close>, and reports progress over a Socket.IO room named after the
  session. The model below follows the service's JavaScript function by function.

  JavaScript objects are modelled as records. A property that may be missing (or
  \<open>null\<close>/\<open>undefined\<close>) is an \<open>option\<close>. The five status strings
  \<open>'pending'\<close>, \<open>'analyzing'\<close>, \<open>'testing'\<close>, \<open>'completed'\<close>, \<open>'failed'\<close> are the
  constructors of \<open>status\<close>.
\<close>

datatype status = Pending | Analyzing | Testing | Completed | Failed

record agent =
  agent_name :: string
  agent_status :: string
  agent_score :: "int option"
  agent_detail :: string

record finding =
  severity :: string
  finding_detail :: string

record review_report =
  priority_fixes :: "finding list option"
  report_detail :: string

text \<open>
  The session object built by the submit route. The source's field \<open>id\<close> is
  \<open>session_id\<close> and its field \<open>context\<close> is \<open>context_text\<close> here; \<open>report\<close> and
  \<open>error\<close> are only added by later updates.
\<close>

record session =
  session_id :: string
  code :: string
  language :: string
  context_text :: string
  quality_gates :: "string list"
  status :: status
  progress :: int
  agents :: "agent list"
  created_at :: string
  updated_at :: string
  report :: "review_report option"
  error :: "string option"

text \<open>
  The \<open>updates\<close> object handed to \<open>updateSession\<close>: each key is present or not.
  For \<open>report\<close> the key can be present with an undefined value
  (\<open>report: councilResponse.report\<close>), which \<open>JSON.stringify\<close> then drops.
\<close>

record updates =
  upd_status :: "status option"
  upd_progress :: "int option"
  upd_agents :: "agent list option"
  upd_report :: "review_report option option"
  upd_error :: "string option"

definition no_updates :: updates where
  "no_updates = \<lparr>upd_status = None, upd_progress = None, upd_agents = None,
                  upd_report = None, upd_error = None\<rparr>"

text \<open>Events emitted to a room: \<open>'progress'\<close> with its payload, or \<open>'error'\<close>.\<close>

record progress_update =
  ev_status :: status
  ev_progress :: int
  ev_message :: string
  ev_report :: "review_report option"

datatype event = Progress_event progress_update | Error_event string

text \<open>
  Requests to the two services. \<open>callSandbox(endpoint, method, data)\<close> is logged as
  it is called; \<open>callCouncil(endpoint, data)\<close> likewise.
\<close>

type_synonym files = "(string \<times> string) list"

datatype sandbox_data =
  Create_data string nat
| Execute_data files "string list" nat

record sandbox_request =
  sb_endpoint :: string
  sb_method :: string
  sb_data :: "sandbox_data option"

record sandbox_json =
  sandbox_id :: "string option"
  results :: "string option"

datatype test_results = Test_results "string option" | Test_error string

datatype council_data =
  Review_data string string string "string list"
| Fix_data string string "finding list"

record council_request =
  cn_endpoint :: string
  cn_data :: council_data

record council_json =
  cj_agents :: "agent list option"
  cj_test_code :: "string option"
  cj_code_files :: "files option"
  cj_test_files :: "files option"
  cj_report :: "review_report option"
  cj_test_results :: "test_results option"
  cj_fixes_applied :: "nat option"
  cj_fixed_code :: "string option"
  cj_changes :: "string list option"
  cj_needs_review :: "bool option"

text \<open>
  Everything the service does not decide itself: what the two services answer
  (see below), the readings of the clock and the identifiers \<open>uuidv4\<close> draws.

  An answer is \<open>Inl m\<close> when axios throws, \<open>m\<close> being
  \<open>error.response?.data?.detail || error.message\<close>. It is \<open>Inr None\<close> when
  \<open>response.data\<close> is \<open>null\<close> or \<open>undefined\<close> (a response whose JSON text is
  \<open>null\<close>), so that reading a property of it throws. It is \<open>Inr (Some j)\<close> for
  every other value of \<open>response.data\<close>, \<open>j\<close> holding the properties the code
  reads, each \<open>None\<close> when the value does not have it. A response with no content,
  for which axios yields the empty string, is such a value with none of the
  properties: reading them gives \<open>undefined\<close> and nothing throws.
\<close>

record env =
  council :: "council_request \<Rightarrow> string + council_json option"
  sandbox :: "sandbox_request \<Rightarrow> string + sandbox_json option"
  now :: "nat \<Rightarrow> string"
  uuidv4 :: "nat \<Rightarrow> string"

text \<open>
  The state the service acts on: the Redis store, and logs of what it wrote to
  Redis, emitted to rooms and asked of the two services. Redis commands are taken
  to succeed and the one hour expiry of a key is not modelled.
\<close>

record world =
  redis :: "string \<rightharpoonup> session"
  redis_sets :: "session list"
  emitted :: "(string \<times> event) list"
  sandbox_calls :: "sandbox_request list"
  council_calls :: "council_request list"
  clock_reads :: nat
  uuids_drawn :: nat

definition empty_world :: world where
  "empty_world = \<lparr>redis = Map.empty, redis_sets = [], emitted = [], sandbox_calls = [],
                   council_calls = [], clock_reads = 0, uuids_drawn = 0\<rparr>"

section \<open>Session storage helpers\<close>

definition session_key :: "string \<Rightarrow> string" where
  "session_key sessionId = ''session:'' @ sessionId"

definition saveSession :: "session \<Rightarrow> world \<Rightarrow> world" where
  "saveSession s w =
     w\<lparr>redis := (redis w)(session_key (session_id s) \<mapsto> s),
       redis_sets := redis_sets w @ [s]\<rparr>"

definition getSession :: "world \<Rightarrow> string \<Rightarrow> session option" where
  "getSession w sessionId = redis w (session_key sessionId)"

definition read_clock :: "env \<Rightarrow> world \<Rightarrow> string \<times> world" where
  "read_clock e w = (now e (clock_reads w), w\<lparr>clock_reads := Suc (clock_reads w)\<rparr>)"

text \<open>\<open>{ ...session, ...updates, updated_at: new Date().toISOString() }\<close>\<close>

definition spread_updates :: "session \<Rightarrow> updates \<Rightarrow> string \<Rightarrow> session" where
  "spread_updates s u t =
     s\<lparr>status := (case upd_status u of None \<Rightarrow> status s | Some v \<Rightarrow> v),
       progress := (case upd_progress u of None \<Rightarrow> progress s | Some v \<Rightarrow> v),
       agents := (case upd_agents u of None \<Rightarrow> agents s | Some v \<Rightarrow> v),
       report := (case upd_report u of None \<Rightarrow> report s | Some v \<Rightarrow> v),
       error := (case upd_error u of None \<Rightarrow> error s | Some v \<Rightarrow> Some v),
       updated_at := t\<rparr>"

definition updateSession :: "env \<Rightarrow> string \<Rightarrow> updates \<Rightarrow> world \<Rightarrow> (string + session) \<times> world" where
  "updateSession e sessionId u w =
     (case getSession w sessionId of
        None \<Rightarrow> (Inl ''Session not found'', w)
      | Some s \<Rightarrow>
          (let (t, w1) = read_clock e w;
               updated = spread_updates s u t
           in (Inr updated, saveSession updated w1)))"

section \<open>Council and Sandbox helpers\<close>

definition callCouncil ::
  "env \<Rightarrow> string \<Rightarrow> council_data \<Rightarrow> world \<Rightarrow> (string + council_json option) \<times> world" where
  "callCouncil e endpoint d w =
     (let rq = \<lparr>cn_endpoint = endpoint, cn_data = d\<rparr>;
          w1 = w\<lparr>council_calls := council_calls w @ [rq]\<rparr>
      in case council e rq of
           Inl m \<Rightarrow> (Inl (''Council service error: '' @ m), w1)
         | Inr body \<Rightarrow> (Inr body, w1))"

definition callSandbox ::
  "env \<Rightarrow> string \<Rightarrow> string \<Rightarrow> sandbox_data option \<Rightarrow> world
     \<Rightarrow> (string + sandbox_json option) \<times> world" where
  "callSandbox e endpoint method d w =
     (let rq = \<lparr>sb_endpoint = endpoint, sb_method = method, sb_data = d\<rparr>;
          w1 = w\<lparr>sandbox_calls := sandbox_calls w @ [rq]\<rparr>
      in case sandbox e rq of
           Inl m \<Rightarrow> (Inl (''Sandbox service error: '' @ m), w1)
         | Inr body \<Rightarrow> (Inr body, w1))"

text \<open>
  Reading a property of \<open>null\<close> or \<open>undefined\<close> throws a \<open>TypeError\<close>; its message is
  the engine's and is kept as one fixed text per property.
\<close>

definition type_error :: "string \<Rightarrow> string" where
  "type_error p = ''Cannot read properties of undefined (reading '' @ p @ '')''"

text \<open>A string is truthy when it is there and not empty.\<close>

definition truthy :: "string option \<Rightarrow> bool" where
  "truthy v = (case v of None \<Rightarrow> False | Some s \<Rightarrow> s \<noteq> [])"

text \<open>An undefined value inside a template string prints as \<open>undefined\<close>.\<close>

definition template :: "string option \<Rightarrow> string" where
  "template v = (case v of None \<Rightarrow> ''undefined'' | Some s \<Rightarrow> s)"

text \<open>\<open>{ ...a, ...b }\<close>: the keys of \<open>a\<close>, overwritten and extended by those of \<open>b\<close>.\<close>

fun set_key :: "string \<Rightarrow> string \<Rightarrow> files \<Rightarrow> files" where
  "set_key k v [] = [(k, v)]"
| "set_key k v ((k', v') # r) = (if k = k' then (k, v) # r else (k', v') # set_key k v r)"

definition spread_files :: "files option \<Rightarrow> files option \<Rightarrow> files" where
  "spread_files a b =
     fold (\<lambda>(k, v). set_key k v) (case b of None \<Rightarrow> [] | Some y \<Rightarrow> y)
          (fold (\<lambda>(k, v). set_key k v) (case a of None \<Rightarrow> [] | Some x \<Rightarrow> x) [])"

section \<open>The background review processor\<close>

definition emitProgress :: "string \<Rightarrow> progress_update \<Rightarrow> world \<Rightarrow> world" where
  "emitProgress sessionId u w = w\<lparr>emitted := emitted w @ [(sessionId, Progress_event u)]\<rparr>"

definition emitError :: "string \<Rightarrow> string \<Rightarrow> world \<Rightarrow> world" where
  "emitError sessionId m w = w\<lparr>emitted := emitted w @ [(sessionId, Error_event m)]\<rparr>"

text \<open>
  The body of the inner \<open>try\<close>: create a sandbox, run the tests in it, delete it,
  and read the results. \<open>Inl m\<close> is an exception with message \<open>m\<close>.
\<close>

definition run_tests ::
  "env \<Rightarrow> session \<Rightarrow> council_json \<Rightarrow> world \<Rightarrow> (string + string option) \<times> world" where
  "run_tests e s councilResponse w =
     (case callSandbox e ''/sandbox/create'' ''POST''
             (Some (Create_data (if language s = ''python'' then ''python-3.11''
                                 else ''nodejs-18'') 1800)) w of
        (Inl m, w1) \<Rightarrow> (Inl m, w1)
      | (Inr None, w1) \<Rightarrow> (Inl (type_error ''sandbox_id''), w1)
      | (Inr (Some sb), w1) \<Rightarrow>
          (let sandboxId = sandbox_id sb;
               testFiles = spread_files (cj_code_files councilResponse)
                                        (cj_test_files councilResponse);
               testCommands = (if language s = ''python''
                               then [''pip install -r requirements.txt'', ''pytest'']
                               else [''npm install'', ''npm test''])
           in case callSandbox e (''/sandbox/'' @ template sandboxId @ ''/execute'') ''POST''
                     (Some (Execute_data testFiles testCommands 300)) w1 of
                (Inl m, w2) \<Rightarrow> (Inl m, w2)
              | (Inr testResult, w2) \<Rightarrow>
                  (case callSandbox e (''/sandbox/'' @ template sandboxId) ''DELETE'' None w2 of
                     (Inl m, w3) \<Rightarrow> (Inl m, w3)
                   | (Inr _, w3) \<Rightarrow>
                       (case testResult of
                          None \<Rightarrow> (Inl (type_error ''results''), w3)
                        | Some tr \<Rightarrow> (Inr (results tr), w3)))))"

text \<open>
  \<open>if (councilResponse.test_code) { try { ... } catch (sandboxError) { ... } }\<close>:
  the outcome of the tests, or the message of the exception, is stored in the local
  \<open>councilResponse.test_results\<close>.
\<close>

definition sandbox_phase ::
  "env \<Rightarrow> session \<Rightarrow> council_json \<Rightarrow> world \<Rightarrow> council_json \<times> world" where
  "sandbox_phase e s councilResponse w =
     (if truthy (cj_test_code councilResponse)
      then (case run_tests e s councilResponse w of
              (Inr r, w1) \<Rightarrow> (councilResponse\<lparr>cj_test_results := Some (Test_results r)\<rparr>, w1)
            | (Inl m, w1) \<Rightarrow> (councilResponse\<lparr>cj_test_results := Some (Test_error m)\<rparr>, w1))
      else (councilResponse, w))"

text \<open>
  The body of the outer \<open>try\<close>, after the session has been read, in two parts. The
  first part runs up to the point where the task sends the review request and waits
  for the Council: the status is stored as \<open>analyzing\<close> and two progress events
  are emitted. While the task waits, the routes are served in the state this part
  leaves.
\<close>

definition review_begin :: "env \<Rightarrow> string \<Rightarrow> world \<Rightarrow> (string + unit) \<times> world" where
  "review_begin e sessionId w =
     (case updateSession e sessionId
             (no_updates\<lparr>upd_status := Some Analyzing, upd_progress := Some 10\<rparr>) w of
        (Inl m, w1) \<Rightarrow> (Inl m, w1)
      | (Inr _, w1) \<Rightarrow>
          (let w2 = emitProgress sessionId
                      \<lparr>ev_status = Analyzing, ev_progress = 10,
                       ev_message = ''Starting review...'', ev_report = None\<rparr> w1;
               w3 = emitProgress sessionId
                      \<lparr>ev_status = Analyzing, ev_progress = 20,
                       ev_message = ''Sending to Council agents...'', ev_report = None\<rparr> w2
           in (Inr (), w3)))"

text \<open>The whole body: the first part, then the Council call and what follows it.\<close>

definition review_steps :: "env \<Rightarrow> string \<Rightarrow> session \<Rightarrow> world \<Rightarrow> (string + unit) \<times> world" where
  "review_steps e sessionId s w =
     (case review_begin e sessionId w of
        (Inl m, w1) \<Rightarrow> (Inl m, w1)
      | (Inr _, w3) \<Rightarrow>
          (case callCouncil e ''/council/review''
                  (Review_data (code s) (language s) (context_text s) (quality_gates s)) w3 of
             (Inl m, w4) \<Rightarrow> (Inl m, w4)
           | (Inr None, w4) \<Rightarrow> (Inl (type_error ''agents''), w4)
           | (Inr (Some councilResponse), w4) \<Rightarrow>
               (case updateSession e sessionId
                       (no_updates\<lparr>upd_status := Some Testing, upd_progress := Some 60,
                          upd_agents := Some (case cj_agents councilResponse of
                                                None \<Rightarrow> [] | Some a \<Rightarrow> a)\<rparr>) w4 of
                  (Inl m, w5) \<Rightarrow> (Inl m, w5)
                | (Inr _, w5) \<Rightarrow>
                    (let w6 = emitProgress sessionId
                                \<lparr>ev_status = Testing, ev_progress = 60,
                                 ev_message = ''Running tests in sandbox...'',
                                 ev_report = None\<rparr> w5;
                         (councilResponse', w7) = sandbox_phase e s councilResponse w6
                     in case updateSession e sessionId
                               (no_updates\<lparr>upd_status := Some Completed,
                                  upd_progress := Some 100,
                                  upd_report := Some (cj_report councilResponse')\<rparr>) w7 of
                          (Inl m, w8) \<Rightarrow> (Inl m, w8)
                        | (Inr _, w8) \<Rightarrow>
                            (Inr (), emitProgress sessionId
                                       \<lparr>ev_status = Completed, ev_progress = 100,
                                        ev_message = ''Review complete!'',
                                        ev_report = cj_report councilResponse'\<rparr> w8)))))"

text \<open>
  The outer \<open>catch\<close>: mark the session failed and emit \<open>'error'\<close>. When the session is
  gone, \<open>updateSession\<close> throws inside the handler and the promise is rejected.
\<close>

definition on_error :: "env \<Rightarrow> string \<Rightarrow> string \<Rightarrow> world \<Rightarrow> (string + unit) \<times> world" where
  "on_error e sessionId m w =
     (case updateSession e sessionId
             (no_updates\<lparr>upd_status := Some Failed, upd_error := Some m\<rparr>) w of
        (Inl m', w1) \<Rightarrow> (Inl m', w1)
      | (Inr _, w1) \<Rightarrow> (Inr (), emitError sessionId m w1))"

definition processReview :: "env \<Rightarrow> string \<Rightarrow> world \<Rightarrow> (string + unit) \<times> world" where
  "processReview e sessionId w =
     (case getSession w sessionId of
        None \<Rightarrow> (Inr (), w)
      | Some s \<Rightarrow>
          (case review_steps e sessionId s w of
             (Inr u, w1) \<Rightarrow> (Inr u, w1)
           | (Inl m, w1) \<Rightarrow> on_error e sessionId m w1))"

section \<open>API routes\<close>

record agent_summary =
  sum_name :: string
  sum_status :: string
  sum_score :: "int option"

record fix_output =
  fx_session_id :: string
  fx_fixes_applied :: "nat option"
  fx_fixed_code :: "string option"
  fx_changes :: "string list option"
  fx_language :: string
  fx_needs_review :: "bool option"

datatype body =
  Error_body string
| Submit_body string status string
| Status_body string status int "agent_summary list"
| Fix_body fix_output
| Message_body string

type_synonym response = "nat \<times> body"

record submit_request =
  rq_code :: "string option"
  rq_language :: "string option"
  rq_context :: "string option"
  rq_quality_gates :: "string list option"

text \<open>
  \<open>POST /api/v1/review/submit\<close>. The route stores the session and then starts
  \<open>processReview\<close> without awaiting it: the second component of the result is the
  session for which the background task has been started, if any.
\<close>

definition submit :: "env \<Rightarrow> submit_request \<Rightarrow> world \<Rightarrow> response \<times> string option \<times> world" where
  "submit e rq w =
     (case rq_code rq of
        None \<Rightarrow> ((400, Error_body ''Code is required''), None, w)
      | Some c \<Rightarrow>
          if c = [] then ((400, Error_body ''Code is required''), None, w)
          else
            (let sessionId = ''rev-'' @ uuidv4 e (uuids_drawn w);
                 w1 = w\<lparr>uuids_drawn := Suc (uuids_drawn w)\<rparr>;
                 (t1, w2) = read_clock e w1;
                 (t2, w3) = read_clock e w2;
                 s = \<lparr>session_id = sessionId,
                      code = c,
                      language = (case rq_language rq of None \<Rightarrow> ''javascript'' | Some l \<Rightarrow> l),
                      context_text = (case rq_context rq of None \<Rightarrow> [] | Some x \<Rightarrow> x),
                      quality_gates = (case rq_quality_gates rq of
                                         None \<Rightarrow> [''qa'', ''security'', ''performance'']
                                       | Some g \<Rightarrow> g),
                      status = Pending, progress = 0, agents = [],
                      created_at = t1, updated_at = t2,
                      report = None, error = None\<rparr>;
                 w4 = saveSession s w3
             in ((200, Submit_body sessionId Pending ''Review started''), Some sessionId, w4)))"

text \<open>\<open>GET /api/v1/review/:sessionId/status\<close>\<close>

definition get_status :: "string \<Rightarrow> world \<Rightarrow> response" where
  "get_status sessionId w =
     (case getSession w sessionId of
        None \<Rightarrow> (404, Error_body ''Session not found'')
      | Some s \<Rightarrow>
          (200, Status_body (session_id s) (status s) (progress s)
                  (map (\<lambda>a. \<lparr>sum_name = agent_name a, sum_status = agent_status a,
                             sum_score = agent_score a\<rparr>) (agents s))))"

text \<open>\<open>POST /api/v1/review/:sessionId/fix\<close>\<close>

definition apply_fixes :: "env \<Rightarrow> string \<Rightarrow> string list option \<Rightarrow> world \<Rightarrow> response \<times> world" where
  "apply_fixes e sessionId prios w =
     (let fix_priorities = (case prios of None \<Rightarrow> [''critical'', ''high''] | Some p \<Rightarrow> p)
      in case getSession w sessionId of
           None \<Rightarrow> ((404, Error_body ''Session not found''), w)
         | Some s \<Rightarrow>
             (case report s of
                None \<Rightarrow> ((400, Error_body ''No report available''), w)
              | Some r \<Rightarrow>
                  (case priority_fixes r of
                     None \<Rightarrow> ((500, Error_body (type_error ''filter'')), w)
                   | Some fs \<Rightarrow>
                       (case callCouncil e ''/council/fix''
                               (Fix_data (code s) (language s)
                                  (filter (\<lambda>f. severity f \<in> set fix_priorities) fs)) w of
                          (Inl m, w1) \<Rightarrow> ((500, Error_body m), w1)
                        | (Inr None, w1) \<Rightarrow> ((500, Error_body (type_error ''fixes_applied'')), w1)
                        | (Inr (Some fixResponse), w1) \<Rightarrow>
                            ((200, Fix_body
                                     \<lparr>fx_session_id = sessionId,
                                      fx_fixes_applied = cj_fixes_applied fixResponse,
                                      fx_fixed_code = cj_fixed_code fixResponse,
                                      fx_changes = cj_changes fixResponse,
                                      fx_language = language s,
                                      fx_needs_review = cj_needs_review fixResponse\<rparr>), w1)))))"

text \<open>\<open>DELETE /api/v1/review/:sessionId\<close>\<close>

definition delete_session :: "string \<Rightarrow> world \<Rightarrow> response \<times> world" where
  "delete_session sessionId w =
     ((200, Message_body ''Session deleted''),
      w\<lparr>redis := (redis w)(session_key sessionId := None)\<rparr>)"

text \<open>
  One review from beginning to end: the submit route, then the background task it
  started, run to its end with no other request served in between.
\<close>

definition review_lifecycle :: "env \<Rightarrow> submit_request \<Rightarrow> world \<Rightarrow> world" where
  "review_lifecycle e rq w =
     (case submit e rq w of
        (_, None, w1) \<Rightarrow> w1
      | (_, Some sessionId, w1) \<Rightarrow> snd (processReview e sessionId w1))"

section \<open>Test doubles\<close>

text \<open>
  Concrete collaborators for the worked examples: a Council answer with none of the
  properties (what the code reads off \<open>{}\<close>, or off the empty string of a response
  with no content), a Sandbox that cannot be reached, one whose \<open>execute\<close> call
  times out after a successful \<open>create\<close>, and an environment built from a Council
  and a Sandbox.
\<close>

definition bare_json :: council_json where
  "bare_json = \<lparr>cj_agents = None, cj_test_code = None, cj_code_files = None,
                 cj_test_files = None, cj_report = None, cj_test_results = None,
                 cj_fixes_applied = None, cj_fixed_code = None, cj_changes = None,
                 cj_needs_review = None\<rparr>"

definition sandbox_down :: "sandbox_request \<Rightarrow> string + sandbox_json option" where
  "sandbox_down rq = Inl ''connect ECONNREFUSED''"

definition sandbox_slow :: "sandbox_request \<Rightarrow> string + sandbox_json option" where
  "sandbox_slow rq =
     (if sb_endpoint rq = ''/sandbox/create''
      then Inr (Some \<lparr>sandbox_id = Some ''sb-1'', results = None\<rparr>)
      else if sb_method rq = ''DELETE'' then Inr (Some \<lparr>sandbox_id = None, results = None\<rparr>)
      else Inl ''timeout of 180000ms exceeded'')"

definition test_env ::
  "(string + council_json option) \<Rightarrow> (sandbox_request \<Rightarrow> string + sandbox_json option) \<Rightarrow> env" where
  "test_env c sb = \<lparr>council = (\<lambda>rq. c), sandbox = sb,
                     now = (\<lambda>n. ''2025-12-31T00:00:00.000Z''), uuidv4 = (\<lambda>n. ''0001'')\<rparr>"

definition code_only :: "string \<Rightarrow> submit_request" where
  "code_only c = \<lparr>rq_code = Some c, rq_language = None, rq_context = None,
                   rq_quality_gates = None\<rparr>"

text \<open>
  The session the submit route stores for the code \<open>print(1)\<close> under these doubles,
  and a store holding just that session.
\<close>

definition pending_session :: session where
  "pending_session =
     \<lparr>session_id = ''rev-0001'', code = ''print(1)'', language = ''javascript'',
      context_text = [], quality_gates = [''qa'', ''security'', ''performance''],
      status = Pending, progress = 0, agents = [],
      created_at = ''2025-12-31T00:00:00.000Z'', updated_at = ''2025-12-31T00:00:00.000Z'',
      report = None, error = None\<rparr>"

definition pending_world :: world where
  "pending_world = saveSession pending_session empty_world"

text \<open>
  What a subscriber reads off the events it receives: the progress numbers of the
  \<open>'progress'\<close> events, in order (an \<open>'error'\<close> event carries none).
\<close>

fun progress_of :: "event \<Rightarrow> int list" where
  "progress_of (Progress_event u) = [ev_progress u]"
| "progress_of (Error_event m) = []"

definition progress_values :: "(string \<times> event) list \<Rightarrow> int list" where
  "progress_values evs = concat (map (\<lambda>(room, ev). progress_of ev) evs)"

text \<open>
  The request objects the background task and the fix route hand to \<open>callCouncil\<close>
  and \<open>callSandbox\<close>, named so that statements can refer to them.
\<close>

definition review_request :: "session \<Rightarrow> council_request" where
  "review_request s =
     \<lparr>cn_endpoint = ''/council/review'',
      cn_data = Review_data (code s) (language s) (context_text s) (quality_gates s)\<rparr>"

definition create_request :: "session \<Rightarrow> sandbox_request" where
  "create_request s =
     \<lparr>sb_endpoint = ''/sandbox/create'', sb_method = ''POST'',
      sb_data = Some (Create_data (if language s = ''python'' then ''python-3.11''
                                   else ''nodejs-18'') 1800)\<rparr>"

definition execute_request :: "session \<Rightarrow> council_json \<Rightarrow> sandbox_json \<Rightarrow> sandbox_request" where
  "execute_request s councilResponse sb =
     \<lparr>sb_endpoint = ''/sandbox/'' @ template (sandbox_id sb) @ ''/execute'', sb_method = ''POST'',
      sb_data = Some (Execute_data
                        (spread_files (cj_code_files councilResponse)
                                      (cj_test_files councilResponse))
                        (if language s = ''python''
                         then [''pip install -r requirements.txt'', ''pytest'']
                         else [''npm install'', ''npm test'']) 300)\<rparr>"

definition delete_request :: "sandbox_json \<Rightarrow> sandbox_request" where
  "delete_request sb =
     \<lparr>sb_endpoint = ''/sandbox/'' @ template (sandbox_id sb), sb_method = ''DELETE'',
      sb_data = None\<rparr>"

definition fix_request :: "session \<Rightarrow> string list option \<Rightarrow> finding list \<Rightarrow> council_request" where
  "fix_request s prios fs =
     \<lparr>cn_endpoint = ''/council/fix'',
      cn_data = Fix_data (code s) (language s)
                  (filter (\<lambda>f. severity f \<in> set (case prios of
                                                      None \<Rightarrow> [''critical'', ''high'']
                                                    | Some p \<Rightarrow> p)) fs)\<rparr>"

text \<open>A report with one critical and one low finding.\<close>

definition lint_report :: review_report where
  "lint_report = \<lparr>priority_fixes = Some [\<lparr>severity = ''critical'', finding_detail = ''eval of user input''\<rparr>,
                                       \<lparr>severity = ''low'', finding_detail = ''unused variable''\<rparr>],
                  report_detail = ''score 40''\<rparr>"

text \<open>
  A Council answer to a fix request, and a store holding one completed session whose
  report is \<open>lint_report\<close>.
\<close>

definition fixed_json :: council_json where
  "fixed_json = bare_json\<lparr>cj_fixes_applied := Some 1, cj_fixed_code := Some ''print(2)'',
                          cj_changes := Some [''removed eval''], cj_needs_review := Some False\<rparr>"

definition completed_world :: world where
  "completed_world =
     saveSession (pending_session\<lparr>status := Completed, progress := 100,
                                  report := Some lint_report\<rparr>) empty_world"

section \<open>Effects of the helpers on the state\<close>

lemma getSession_saveSession [simp]:
  "getSession (saveSession s w) sid = (if session_id s = sid then Some s else getSession w sid)"
  by (simp add: getSession_def saveSession_def session_key_def)

lemma saveSession_logs [simp]:
  "redis_sets (saveSession s w) = redis_sets w @ [s]"
  "emitted (saveSession s w) = emitted w"
  "sandbox_calls (saveSession s w) = sandbox_calls w"
  "council_calls (saveSession s w) = council_calls w"
  "clock_reads (saveSession s w) = clock_reads w"
  "uuids_drawn (saveSession s w) = uuids_drawn w"
  by (simp_all add: saveSession_def)

lemma getSession_frame [simp]:
  "getSession (w\<lparr>sandbox_calls := c\<rparr>) sid = getSession w sid"
  "getSession (w\<lparr>council_calls := d\<rparr>) sid = getSession w sid"
  "getSession (w\<lparr>clock_reads := n\<rparr>) sid = getSession w sid"
  "getSession (w\<lparr>emitted := ev\<rparr>) sid = getSession w sid"
  "getSession (w\<lparr>uuids_drawn := k\<rparr>) sid = getSession w sid"
  by (simp_all add: getSession_def)

lemma emitProgress_frame [simp]:
  "getSession (emitProgress room u w) sid = getSession w sid"
  "redis_sets (emitProgress room u w) = redis_sets w"
  "emitted (emitProgress room u w) = emitted w @ [(room, Progress_event u)]"
  "sandbox_calls (emitProgress room u w) = sandbox_calls w"
  "council_calls (emitProgress room u w) = council_calls w"
  "clock_reads (emitProgress room u w) = clock_reads w"
  by (simp_all add: emitProgress_def)

lemma emitError_frame [simp]:
  "getSession (emitError room m w) sid = getSession w sid"
  "redis_sets (emitError room m w) = redis_sets w"
  "emitted (emitError room m w) = emitted w @ [(room, Error_event m)]"
  "sandbox_calls (emitError room m w) = sandbox_calls w"
  "council_calls (emitError room m w) = council_calls w"
  "clock_reads (emitError room m w) = clock_reads w"
  by (simp_all add: emitError_def)

lemma updateSession_present:
  assumes "getSession w sid = Some s"
  shows "updateSession e sid u w =
           (Inr (spread_updates s u (now e (clock_reads w))),
            saveSession (spread_updates s u (now e (clock_reads w)))
              (w\<lparr>clock_reads := Suc (clock_reads w)\<rparr>))"
  using assms by (simp add: updateSession_def read_clock_def Let_def)

lemma session_id_spread [simp]: "session_id (spread_updates s u t) = session_id s"
  by (simp add: spread_updates_def)

lemma callCouncil_frame [simp]:
  "getSession (snd (callCouncil e ep d w)) sid = getSession w sid"
  "redis_sets (snd (callCouncil e ep d w)) = redis_sets w"
  "emitted (snd (callCouncil e ep d w)) = emitted w"
  "sandbox_calls (snd (callCouncil e ep d w)) = sandbox_calls w"
  "council_calls (snd (callCouncil e ep d w)) = council_calls w @ [\<lparr>cn_endpoint = ep, cn_data = d\<rparr>]"
  "clock_reads (snd (callCouncil e ep d w)) = clock_reads w"
  by (simp_all add: callCouncil_def Let_def split: sum.splits)

lemma callCouncil_reply:
  "fst (callCouncil e ep d w) =
     (case council e \<lparr>cn_endpoint = ep, cn_data = d\<rparr> of
        Inl m \<Rightarrow> Inl (''Council service error: '' @ m) | Inr b \<Rightarrow> Inr b)"
  by (simp add: callCouncil_def Let_def split: sum.splits)

lemma callSandbox_frame [simp]:
  "getSession (snd (callSandbox e ep m d w)) sid = getSession w sid"
  "redis_sets (snd (callSandbox e ep m d w)) = redis_sets w"
  "emitted (snd (callSandbox e ep m d w)) = emitted w"
  "council_calls (snd (callSandbox e ep m d w)) = council_calls w"
  "clock_reads (snd (callSandbox e ep m d w)) = clock_reads w"
  by (simp_all add: callSandbox_def Let_def split: sum.splits)

lemma run_tests_frame [simp]:
  "getSession (snd (run_tests e s cr w)) sid = getSession w sid"
  "redis_sets (snd (run_tests e s cr w)) = redis_sets w"
  "emitted (snd (run_tests e s cr w)) = emitted w"
  "council_calls (snd (run_tests e s cr w)) = council_calls w"
  "clock_reads (snd (run_tests e s cr w)) = clock_reads w"
  by (simp_all add: run_tests_def Let_def split_beta split: sum.splits option.splits)

lemma sandbox_phase_frame [simp]:
  "getSession (snd (sandbox_phase e s cr w)) sid = getSession w sid"
  "redis_sets (snd (sandbox_phase e s cr w)) = redis_sets w"
  "emitted (snd (sandbox_phase e s cr w)) = emitted w"
  "council_calls (snd (sandbox_phase e s cr w)) = council_calls w"
  "clock_reads (snd (sandbox_phase e s cr w)) = clock_reads w"
  by (simp_all add: sandbox_phase_def split_beta split: sum.splits)

lemma sandbox_phase_report [simp]: "cj_report (fst (sandbox_phase e s cr w)) = cj_report cr"
  by (simp add: sandbox_phase_def split_beta split: sum.splits)

lemma sandbox_phase_skipped:
  "\<not> truthy (cj_test_code cr) \<Longrightarrow> sandbox_phase e s cr w = (cr, w)"
  by (simp add: sandbox_phase_def)

lemmas request_defs =
  review_request_def create_request_def execute_request_def delete_request_def fix_request_def

section \<open>What one run of the background task does\<close>

text \<open>
  The run of \<open>processReview\<close> on a stored session, by what the Council answers to
  the review request: a body that is not \<open>null\<close> (the run goes on to
  \<open>completed\<close>), or an exception or a \<open>null\<close> body (the run ends in the outer
  \<open>catch\<close>).
\<close>

lemma review_steps_analysed:
  assumes "getSession w sid = Some s" and "session_id s = sid"
    and "council e \<lparr>cn_endpoint = ''/council/review'',
       cn_data = Review_data (code s) (language s) (context_text s) (quality_gates s)\<rparr> = Inr (Some cr)"
  shows "fst (review_steps e sid s w) = Inr ()"
    and "getSession (snd (review_steps e sid s w)) sid =
           Some (s\<lparr>status := Completed, progress := 100,
                   agents := (case cj_agents cr of None \<Rightarrow> [] | Some a \<Rightarrow> a),
                   report := cj_report cr,
                   updated_at := now e (Suc (Suc (clock_reads w)))\<rparr>)"
    and "redis_sets (snd (review_steps e sid s w)) = redis_sets w @
          [s\<lparr>status := Analyzing, progress := 10, updated_at := now e (clock_reads w)\<rparr>,
           s\<lparr>status := Testing, progress := 60,
             agents := (case cj_agents cr of None \<Rightarrow> [] | Some a \<Rightarrow> a),
             updated_at := now e (Suc (clock_reads w))\<rparr>,
           s\<lparr>status := Completed, progress := 100,
                   agents := (case cj_agents cr of None \<Rightarrow> [] | Some a \<Rightarrow> a),
                   report := cj_report cr,
                   updated_at := now e (Suc (Suc (clock_reads w)))\<rparr>]"
    and "emitted (snd (review_steps e sid s w)) = emitted w @
          [(sid, Progress_event \<lparr>ev_status = Analyzing, ev_progress = 10,
                       ev_message = ''Starting review...'', ev_report = None\<rparr>),
           (sid, Progress_event \<lparr>ev_status = Analyzing, ev_progress = 20,
                       ev_message = ''Sending to Council agents...'', ev_report = None\<rparr>),
           (sid, Progress_event \<lparr>ev_status = Testing, ev_progress = 60,
                                    ev_message = ''Running tests in sandbox...'',
                                    ev_report = None\<rparr>),
           (sid, Progress_event \<lparr>ev_status = Completed, ev_progress = 100,
                                           ev_message = ''Review complete!'',
                                           ev_report = cj_report cr\<rparr>)]"
    and "\<exists>w6. sandbox_calls w6 = sandbox_calls w \<and>
               sandbox_calls (snd (review_steps e sid s w)) =
                 sandbox_calls (snd (sandbox_phase e s cr w6))"
proof -
  let ?d = "Review_data (code s) (language s) (context_text s) (quality_gates s)"
  let ?ag = "case cj_agents cr of None \<Rightarrow> [] | Some a \<Rightarrow> a"
  let ?s1 = "s\<lparr>status := Analyzing, progress := 10, updated_at := now e (clock_reads w)\<rparr>"
  let ?s2 = "s\<lparr>status := Testing, progress := 60, agents := ?ag,
               updated_at := now e (Suc (clock_reads w))\<rparr>"
  let ?s3 = "s\<lparr>status := Completed, progress := 100, agents := ?ag, report := cj_report cr,
               updated_at := now e (Suc (Suc (clock_reads w)))\<rparr>"
  let ?p10 = "\<lparr>ev_status = Analyzing, ev_progress = 10,
               ev_message = ''Starting review...'', ev_report = None\<rparr>"
  let ?p20 = "\<lparr>ev_status = Analyzing, ev_progress = 20,
               ev_message = ''Sending to Council agents...'', ev_report = None\<rparr>"
  let ?p60 = "\<lparr>ev_status = Testing, ev_progress = 60,
               ev_message = ''Running tests in sandbox...'', ev_report = None\<rparr>"
  let ?p100 = "\<lparr>ev_status = Completed, ev_progress = 100,
               ev_message = ''Review complete!'', ev_report = cj_report cr\<rparr>"
  let ?u1 = "no_updates\<lparr>upd_status := Some Analyzing, upd_progress := Some 10\<rparr>"
  let ?u2 = "no_updates\<lparr>upd_status := Some Testing, upd_progress := Some 60,
               upd_agents := Some ?ag\<rparr>"
  let ?u3 = "no_updates\<lparr>upd_status := Some Completed, upd_progress := Some 100,
               upd_report := Some (cj_report cr)\<rparr>"
  note upd = updateSession_present spread_updates_def no_updates_def
  define w1 where "w1 = snd (updateSession e sid ?u1 w)"
  have u1: "updateSession e sid ?u1 w = (Inr ?s1, w1)"
    unfolding w1_def using assms(1) by (simp add: upd)
  have p1: "getSession w1 sid = Some ?s1" "clock_reads w1 = Suc (clock_reads w)"
    "redis_sets w1 = redis_sets w @ [?s1]" "emitted w1 = emitted w"
    "sandbox_calls w1 = sandbox_calls w"
    unfolding w1_def using assms(1,2) by (simp_all add: upd)
  define w3 where "w3 = emitProgress sid ?p20 (emitProgress sid ?p10 w1)"
  have rb: "review_begin e sid w = (Inr (), w3)"
    by (simp add: review_begin_def u1 w3_def)
  define w4 where "w4 = snd (callCouncil e ''/council/review'' ?d w3)"
  have c4: "callCouncil e ''/council/review'' ?d w3 = (Inr (Some cr), w4)"
    unfolding w4_def using assms(3) callCouncil_reply [of e "''/council/review''" ?d w3]
    by (simp add: prod_eq_iff)
  have p4: "getSession w4 sid = Some ?s1" "clock_reads w4 = Suc (clock_reads w)"
    "redis_sets w4 = redis_sets w @ [?s1]"
    "emitted w4 = emitted w @ [(sid, Progress_event ?p10), (sid, Progress_event ?p20)]"
    "sandbox_calls w4 = sandbox_calls w"
    unfolding w4_def w3_def using p1 by simp_all
  define w5 where "w5 = snd (updateSession e sid ?u2 w4)"
  have u5: "updateSession e sid ?u2 w4 = (Inr ?s2, w5)"
    unfolding w5_def using p4(1,2) by (simp add: upd)
  define w6 where "w6 = emitProgress sid ?p60 w5"
  have p6: "sandbox_calls w6 = sandbox_calls w"
    unfolding w6_def w5_def using p4 by (simp add: upd)
  define w7 where "w7 = snd (sandbox_phase e s cr w6)"
  have p7: "getSession w7 sid = Some ?s2" "clock_reads w7 = Suc (Suc (clock_reads w))"
    "redis_sets w7 = redis_sets w @ [?s1, ?s2]"
    "emitted w7 = emitted w @ [(sid, Progress_event ?p10), (sid, Progress_event ?p20),
                               (sid, Progress_event ?p60)]"
    unfolding w7_def w6_def w5_def using p4 assms(2) by (simp_all add: upd)
  define w8 where "w8 = snd (updateSession e sid ?u3 w7)"
  have u8: "updateSession e sid ?u3 w7 = (Inr ?s3, w8)"
    unfolding w8_def using p7(1,2) by (simp add: upd)
  have p8: "getSession w8 sid = Some ?s3" "redis_sets w8 = redis_sets w @ [?s1, ?s2, ?s3]"
    "emitted w8 = emitted w7" "sandbox_calls w8 = sandbox_calls w7"
    unfolding w8_def using p7 assms(2) by (simp_all add: upd)
  have r: "review_steps e sid s w = (Inr (), emitProgress sid ?p100 w8)"
    unfolding review_steps_def
    by (simp add: rb Let_def c4 u5 split_beta w6_def [symmetric] w7_def [symmetric] u8)
  show "fst (review_steps e sid s w) = Inr ()" by (simp add: r)
  show "getSession (snd (review_steps e sid s w)) sid = Some ?s3" by (simp add: r p8)
  show "redis_sets (snd (review_steps e sid s w)) = redis_sets w @ [?s1, ?s2, ?s3]"
    by (simp add: r p8)
  show "emitted (snd (review_steps e sid s w)) = emitted w @
          [(sid, Progress_event ?p10), (sid, Progress_event ?p20),
           (sid, Progress_event ?p60), (sid, Progress_event ?p100)]"
    by (simp add: r p8 p7)
  have "sandbox_calls (snd (review_steps e sid s w)) =
          sandbox_calls (snd (sandbox_phase e s cr w6))"
    by (simp add: r p8 w7_def)
  with p6 show "\<exists>w6. sandbox_calls w6 = sandbox_calls w \<and>
               sandbox_calls (snd (review_steps e sid s w)) =
                 sandbox_calls (snd (sandbox_phase e s cr w6))"
    by blast
qed

lemma review_steps_failed:
  assumes "getSession w sid = Some s" and "session_id s = sid"
    and "(case council e \<lparr>cn_endpoint = ''/council/review'',
            cn_data = Review_data (code s) (language s) (context_text s) (quality_gates s)\<rparr> of
            Inl m \<Rightarrow> Some (''Council service error: '' @ m)
          | Inr None \<Rightarrow> Some (type_error ''agents'')
          | Inr (Some cr) \<Rightarrow> None) = Some msg"
  shows "fst (review_steps e sid s w) = Inl msg"
    and "getSession (snd (review_steps e sid s w)) sid =
           Some (s\<lparr>status := Analyzing, progress := 10, updated_at := now e (clock_reads w)\<rparr>)"
    and "redis_sets (snd (review_steps e sid s w)) = redis_sets w @
          [s\<lparr>status := Analyzing, progress := 10, updated_at := now e (clock_reads w)\<rparr>]"
    and "emitted (snd (review_steps e sid s w)) = emitted w @
          [(sid, Progress_event \<lparr>ev_status = Analyzing, ev_progress = 10,
                       ev_message = ''Starting review...'', ev_report = None\<rparr>),
           (sid, Progress_event \<lparr>ev_status = Analyzing, ev_progress = 20,
                       ev_message = ''Sending to Council agents...'', ev_report = None\<rparr>)]"
    and "sandbox_calls (snd (review_steps e sid s w)) = sandbox_calls w"
    and "clock_reads (snd (review_steps e sid s w)) = Suc (clock_reads w)"
proof -
  let ?d = "Review_data (code s) (language s) (context_text s) (quality_gates s)"
  let ?s1 = "s\<lparr>status := Analyzing, progress := 10, updated_at := now e (clock_reads w)\<rparr>"
  let ?p10 = "\<lparr>ev_status = Analyzing, ev_progress = 10,
               ev_message = ''Starting review...'', ev_report = None\<rparr>"
  let ?p20 = "\<lparr>ev_status = Analyzing, ev_progress = 20,
               ev_message = ''Sending to Council agents...'', ev_report = None\<rparr>"
  let ?u1 = "no_updates\<lparr>upd_status := Some Analyzing, upd_progress := Some 10\<rparr>"
  note upd = updateSession_present spread_updates_def no_updates_def
  define w1 where "w1 = snd (updateSession e sid ?u1 w)"
  have u1: "updateSession e sid ?u1 w = (Inr ?s1, w1)"
    unfolding w1_def using assms(1) by (simp add: upd)
  have p1: "getSession w1 sid = Some ?s1" "clock_reads w1 = Suc (clock_reads w)"
    "redis_sets w1 = redis_sets w @ [?s1]" "emitted w1 = emitted w"
    "sandbox_calls w1 = sandbox_calls w"
    unfolding w1_def using assms(1,2) by (simp_all add: upd)
  define w3 where "w3 = emitProgress sid ?p20 (emitProgress sid ?p10 w1)"
  have rb: "review_begin e sid w = (Inr (), w3)"
    by (simp add: review_begin_def u1 w3_def)
  define w4 where "w4 = snd (callCouncil e ''/council/review'' ?d w3)"
  have p4: "getSession w4 sid = Some ?s1" "clock_reads w4 = Suc (clock_reads w)"
    "redis_sets w4 = redis_sets w @ [?s1]"
    "emitted w4 = emitted w @ [(sid, Progress_event ?p10), (sid, Progress_event ?p20)]"
    "sandbox_calls w4 = sandbox_calls w"
    unfolding w4_def w3_def using p1 by simp_all
  have c4: "callCouncil e ''/council/review'' ?d w3 = (Inl msg, w4) \<or>
            (callCouncil e ''/council/review'' ?d w3 = (Inr None, w4) \<and>
             msg = type_error ''agents'')"
    unfolding w4_def using assms(3) callCouncil_reply [of e "''/council/review''" ?d w3]
    by (auto simp add: prod_eq_iff split: sum.splits option.splits)
  have r: "review_steps e sid s w = (Inl msg, w4)"
    unfolding review_steps_def using c4
    by (auto simp add: rb)
  show "fst (review_steps e sid s w) = Inl msg" by (simp add: r)
  show "getSession (snd (review_steps e sid s w)) sid = Some ?s1" by (simp add: r p4)
  show "redis_sets (snd (review_steps e sid s w)) = redis_sets w @ [?s1]" by (simp add: r p4)
  show "emitted (snd (review_steps e sid s w)) = emitted w @
          [(sid, Progress_event ?p10), (sid, Progress_event ?p20)]" by (simp add: r p4)
  show "sandbox_calls (snd (review_steps e sid s w)) = sandbox_calls w" by (simp add: r p4)
  show "clock_reads (snd (review_steps e sid s w)) = Suc (clock_reads w)" by (simp add: r p4)
qed

lemma processReview_steps:
  assumes "getSession w sid = Some s"
  shows "processReview e sid w =
           (case fst (review_steps e sid s w) of
              Inr u \<Rightarrow> (Inr u, snd (review_steps e sid s w))
            | Inl m \<Rightarrow> on_error e sid m (snd (review_steps e sid s w)))"
  using assms by (simp add: processReview_def split_beta split: sum.splits)

lemma on_error_present:
  assumes "getSession w sid = Some s" and "session_id s = sid"
  shows "on_error e sid m w =
           (Inr (), emitError sid m
              (saveSession (s\<lparr>status := Failed, error := Some m,
                               updated_at := now e (clock_reads w)\<rparr>)
                 (w\<lparr>clock_reads := Suc (clock_reads w)\<rparr>)))"
  using assms
  by (simp add: on_error_def updateSession_present spread_updates_def no_updates_def)

lemma processReview_analysed:
  assumes "getSession w sid = Some s" and "session_id s = sid"
    and "council e \<lparr>cn_endpoint = ''/council/review'',
       cn_data = Review_data (code s) (language s) (context_text s) (quality_gates s)\<rparr> = Inr (Some cr)"
  shows "fst (processReview e sid w) = Inr ()"
    and "getSession (snd (processReview e sid w)) sid =
           Some (s\<lparr>status := Completed, progress := 100,
                   agents := (case cj_agents cr of None \<Rightarrow> [] | Some a \<Rightarrow> a),
                   report := cj_report cr,
                   updated_at := now e (Suc (Suc (clock_reads w)))\<rparr>)"
    and "redis_sets (snd (processReview e sid w)) = redis_sets w @
          [s\<lparr>status := Analyzing, progress := 10, updated_at := now e (clock_reads w)\<rparr>,
           s\<lparr>status := Testing, progress := 60,
             agents := (case cj_agents cr of None \<Rightarrow> [] | Some a \<Rightarrow> a),
             updated_at := now e (Suc (clock_reads w))\<rparr>,
           s\<lparr>status := Completed, progress := 100,
                   agents := (case cj_agents cr of None \<Rightarrow> [] | Some a \<Rightarrow> a),
                   report := cj_report cr,
                   updated_at := now e (Suc (Suc (clock_reads w)))\<rparr>]"
    and "emitted (snd (processReview e sid w)) = emitted w @
          [(sid, Progress_event \<lparr>ev_status = Analyzing, ev_progress = 10,
                       ev_message = ''Starting review...'', ev_report = None\<rparr>),
           (sid, Progress_event \<lparr>ev_status = Analyzing, ev_progress = 20,
                       ev_message = ''Sending to Council agents...'', ev_report = None\<rparr>),
           (sid, Progress_event \<lparr>ev_status = Testing, ev_progress = 60,
                                    ev_message = ''Running tests in sandbox...'',
                                    ev_report = None\<rparr>),
           (sid, Progress_event \<lparr>ev_status = Completed, ev_progress = 100,
                                           ev_message = ''Review complete!'',
                                           ev_report = cj_report cr\<rparr>)]"
    and "\<exists>w6. sandbox_calls w6 = sandbox_calls w \<and>
               sandbox_calls (snd (processReview e sid w)) =
                 sandbox_calls (snd (sandbox_phase e s cr w6))"
  using review_steps_analysed [OF assms]
  by (simp_all add: processReview_steps [OF assms(1)])

lemma processReview_analysis_failed:
  assumes "getSession w sid = Some s" and "session_id s = sid"
    and "(case council e \<lparr>cn_endpoint = ''/council/review'',
            cn_data = Review_data (code s) (language s) (context_text s) (quality_gates s)\<rparr> of
            Inl m \<Rightarrow> Some (''Council service error: '' @ m)
          | Inr None \<Rightarrow> Some (type_error ''agents'')
          | Inr (Some cr) \<Rightarrow> None) = Some msg"
  shows "fst (processReview e sid w) = Inr ()"
    and "getSession (snd (processReview e sid w)) sid =
           Some (s\<lparr>status := Failed, progress := 10, error := Some msg,
                   updated_at := now e (Suc (clock_reads w))\<rparr>)"
    and "redis_sets (snd (processReview e sid w)) = redis_sets w @
          [s\<lparr>status := Analyzing, progress := 10, updated_at := now e (clock_reads w)\<rparr>,
           s\<lparr>status := Failed, progress := 10, error := Some msg,
                   updated_at := now e (Suc (clock_reads w))\<rparr>]"
    and "emitted (snd (processReview e sid w)) = emitted w @
          [(sid, Progress_event \<lparr>ev_status = Analyzing, ev_progress = 10,
                       ev_message = ''Starting review...'', ev_report = None\<rparr>),
           (sid, Progress_event \<lparr>ev_status = Analyzing, ev_progress = 20,
                       ev_message = ''Sending to Council agents...'', ev_report = None\<rparr>),
           (sid, Error_event msg)]"
    and "sandbox_calls (snd (processReview e sid w)) = sandbox_calls w"
proof -
  note f = review_steps_failed [OF assms]
  have e: "processReview e sid w = on_error e sid msg (snd (review_steps e sid s w))"
    by (simp add: processReview_steps [OF assms(1)] f(1))
  note o = on_error_present [OF f(2), of e msg, simplified]
  show "fst (processReview e sid w) = Inr ()"
    using assms(2) by (simp add: e o)
  show "getSession (snd (processReview e sid w)) sid =
           Some (s\<lparr>status := Failed, progress := 10, error := Some msg,
                   updated_at := now e (Suc (clock_reads w))\<rparr>)"
    using assms(2) by (simp add: e o f)
  show "redis_sets (snd (processReview e sid w)) = redis_sets w @
          [s\<lparr>status := Analyzing, progress := 10, updated_at := now e (clock_reads w)\<rparr>,
           s\<lparr>status := Failed, progress := 10, error := Some msg,
                   updated_at := now e (Suc (clock_reads w))\<rparr>]"
    using assms(2) by (simp add: e o f)
  show "emitted (snd (processReview e sid w)) = emitted w @
          [(sid, Progress_event \<lparr>ev_status = Analyzing, ev_progress = 10,
                       ev_message = ''Starting review...'', ev_report = None\<rparr>),
           (sid, Progress_event \<lparr>ev_status = Analyzing, ev_progress = 20,
                       ev_message = ''Sending to Council agents...'', ev_report = None\<rparr>),
           (sid, Error_event msg)]"
    using assms(2) by (simp add: e o f)
  show "sandbox_calls (snd (processReview e sid w)) = sandbox_calls w"
    using assms(2) by (simp add: e o f)
qed

lemma pending_world_session [simp]:
  "getSession pending_world ''rev-0001'' = Some pending_session"
  "session_id pending_session = ''rev-0001''"
  by (simp_all add: pending_world_def pending_session_def)

lemma run_tests_raises:
  assumes "sandbox e (create_request s) = Inl m \<or>
           (\<exists>sb. sandbox e (create_request s) = Inr (Some sb) \<and>
              (sandbox e (execute_request s cr sb) = Inl m \<or>
               (\<exists>tr. sandbox e (execute_request s cr sb) = Inr tr \<and>
                     sandbox e (delete_request sb) = Inl m)))"
  shows "fst (run_tests e s cr w) = Inl (''Sandbox service error: '' @ m)"
  using assms
  by (auto simp add: run_tests_def callSandbox_def Let_def request_defs)

text \<open>
  The Sandbox calls of the execution phase once \<open>create\<close> has answered: with
  \<open>execute\<close> answering, the three calls \<open>create\<close>, \<open>execute\<close>, \<open>DELETE\<close>; with
  \<open>execute\<close> throwing, \<open>create\<close> and \<open>execute\<close> only.
\<close>

lemma sandbox_phase_calls:
  assumes "truthy (cj_test_code cr)" and "sandbox e (create_request s) = Inr (Some sb)"
  shows "sandbox e (execute_request s cr sb) = Inr tr \<Longrightarrow>
           sandbox_calls (snd (sandbox_phase e s cr w)) =
             sandbox_calls w @ [create_request s, execute_request s cr sb, delete_request sb]"
    and "sandbox e (execute_request s cr sb) = Inl m \<Longrightarrow>
           sandbox_calls (snd (sandbox_phase e s cr w)) =
             sandbox_calls w @ [create_request s, execute_request s cr sb]"
  using assms
  by (cases "sandbox e (delete_request sb)";
      cases tr;
      simp add: sandbox_phase_def run_tests_def callSandbox_def request_defs Let_def)+

lemma submit_valid:
  assumes "rq_code rq = Some c" and "c \<noteq> []"
  shows "\<exists>s1 w1. submit e rq w =
            ((200, Submit_body (''rev-'' @ uuidv4 e (uuids_drawn w)) Pending ''Review started''),
             Some (''rev-'' @ uuidv4 e (uuids_drawn w)), w1) \<and>
          getSession w1 (''rev-'' @ uuidv4 e (uuids_drawn w)) = Some s1 \<and>
          session_id s1 = ''rev-'' @ uuidv4 e (uuids_drawn w) \<and>
          status s1 = Pending \<and> progress s1 = 0 \<and> report s1 = None \<and>
          redis_sets w1 = redis_sets w @ [s1] \<and> emitted w1 = emitted w \<and> agents s1 = []"
  using assms by (simp add: submit_def read_clock_def Let_def)

lemma review_lifecycle_cases:
  assumes "rq_code rq = Some c" and "c \<noteq> []"
  shows "\<exists>s1 t1 t2 t3 ag rp msg.
          session_id s1 = ''rev-'' @ uuidv4 e (uuids_drawn w) \<and>
          status s1 = Pending \<and> progress s1 = 0 \<and> report s1 = None \<and>
          ((redis_sets (review_lifecycle e rq w) = redis_sets w @
              [s1, s1\<lparr>status := Analyzing, progress := 10, updated_at := t1\<rparr>,
               s1\<lparr>status := Testing, progress := 60, agents := ag, updated_at := t2\<rparr>,
               s1\<lparr>status := Completed, progress := 100, agents := ag, report := rp,
                  updated_at := t3\<rparr>] \<and>
            emitted (review_lifecycle e rq w) = emitted w @
              [(session_id s1, Progress_event \<lparr>ev_status = Analyzing, ev_progress = 10,
                       ev_message = ''Starting review...'', ev_report = None\<rparr>),
               (session_id s1, Progress_event \<lparr>ev_status = Analyzing, ev_progress = 20,
                       ev_message = ''Sending to Council agents...'', ev_report = None\<rparr>),
               (session_id s1, Progress_event \<lparr>ev_status = Testing, ev_progress = 60,
                       ev_message = ''Running tests in sandbox...'', ev_report = None\<rparr>),
               (session_id s1, Progress_event \<lparr>ev_status = Completed, ev_progress = 100,
                       ev_message = ''Review complete!'', ev_report = rp\<rparr>)]) \<or>
           (redis_sets (review_lifecycle e rq w) = redis_sets w @
              [s1, s1\<lparr>status := Analyzing, progress := 10, updated_at := t1\<rparr>,
               s1\<lparr>status := Failed, progress := 10, error := Some msg, updated_at := t2\<rparr>] \<and>
            emitted (review_lifecycle e rq w) = emitted w @
              [(session_id s1, Progress_event \<lparr>ev_status = Analyzing, ev_progress = 10,
                       ev_message = ''Starting review...'', ev_report = None\<rparr>),
               (session_id s1, Progress_event \<lparr>ev_status = Analyzing, ev_progress = 20,
                       ev_message = ''Sending to Council agents...'', ev_report = None\<rparr>),
               (session_id s1, Error_event msg)]))"
proof -
  define sid where "sid = ''rev-'' @ uuidv4 e (uuids_drawn w)"
  from submit_valid [OF assms, of e w] obtain s1 w1 where
    sub: "submit e rq w = ((200, Submit_body sid Pending ''Review started''), Some sid, w1)"
    and g: "getSession w1 sid = Some s1" and i: "session_id s1 = sid"
    and f: "status s1 = Pending" "progress s1 = 0" "report s1 = None"
    and l: "redis_sets w1 = redis_sets w @ [s1]" "emitted w1 = emitted w"
    unfolding sid_def by blast
  have lc: "review_lifecycle e rq w = snd (processReview e sid w1)"
    by (simp add: review_lifecycle_def sub)
  let ?rq = "\<lparr>cn_endpoint = ''/council/review'',
       cn_data = Review_data (code s1) (language s1) (context_text s1) (quality_gates s1)\<rparr>"
  have "\<exists>t1 t2 t3 ag rp msg.
          ((redis_sets (review_lifecycle e rq w) = redis_sets w @
              [s1, s1\<lparr>status := Analyzing, progress := 10, updated_at := t1\<rparr>,
               s1\<lparr>status := Testing, progress := 60, agents := ag, updated_at := t2\<rparr>,
               s1\<lparr>status := Completed, progress := 100, agents := ag, report := rp,
                  updated_at := t3\<rparr>] \<and>
            emitted (review_lifecycle e rq w) = emitted w @
              [(sid, Progress_event \<lparr>ev_status = Analyzing, ev_progress = 10,
                       ev_message = ''Starting review...'', ev_report = None\<rparr>),
               (sid, Progress_event \<lparr>ev_status = Analyzing, ev_progress = 20,
                       ev_message = ''Sending to Council agents...'', ev_report = None\<rparr>),
               (sid, Progress_event \<lparr>ev_status = Testing, ev_progress = 60,
                       ev_message = ''Running tests in sandbox...'', ev_report = None\<rparr>),
               (sid, Progress_event \<lparr>ev_status = Completed, ev_progress = 100,
                       ev_message = ''Review complete!'', ev_report = rp\<rparr>)]) \<or>
           (redis_sets (review_lifecycle e rq w) = redis_sets w @
              [s1, s1\<lparr>status := Analyzing, progress := 10, updated_at := t1\<rparr>,
               s1\<lparr>status := Failed, progress := 10, error := Some msg, updated_at := t2\<rparr>] \<and>
            emitted (review_lifecycle e rq w) = emitted w @
              [(sid, Progress_event \<lparr>ev_status = Analyzing, ev_progress = 10,
                       ev_message = ''Starting review...'', ev_report = None\<rparr>),
               (sid, Progress_event \<lparr>ev_status = Analyzing, ev_progress = 20,
                       ev_message = ''Sending to Council agents...'', ev_report = None\<rparr>),
               (sid, Error_event msg)]))"
  proof (cases "\<exists>cr. council e ?rq = Inr (Some cr)")
    case True
    then obtain cr where c: "council e ?rq = Inr (Some cr)" by blast
    note a = processReview_analysed [OF g i c]
    show ?thesis
      apply (rule exI [of _ "now e (clock_reads w1)"])
      apply (rule exI [of _ "now e (Suc (clock_reads w1))"])
      apply (rule exI [of _ "now e (Suc (Suc (clock_reads w1)))"])
      apply (rule exI [of _ "case cj_agents cr of None \<Rightarrow> [] | Some a \<Rightarrow> a"])
      apply (rule exI [of _ "cj_report cr"])
      apply (simp add: lc a l)
      done
  next
    case False
    have "\<exists>msg. (case council e ?rq of
            Inl m \<Rightarrow> Some (''Council service error: '' @ m)
          | Inr None \<Rightarrow> Some (type_error ''agents'')
          | Inr (Some cr) \<Rightarrow> None) = Some msg"
    proof (cases "council e ?rq")
      case (Inl m)
      then show ?thesis by simp
    next
      case (Inr b)
      with False show ?thesis by (cases b) simp_all
    qed
    then obtain msg where c: "(case council e ?rq of
            Inl m \<Rightarrow> Some (''Council service error: '' @ m)
          | Inr None \<Rightarrow> Some (type_error ''agents'')
          | Inr (Some cr) \<Rightarrow> None) = Some msg" by blast
    note a = processReview_analysis_failed [OF g i c]
    show ?thesis
      apply (rule exI [of _ "now e (clock_reads w1)"])
      apply (rule exI [of _ "now e (Suc (clock_reads w1))"])
      apply (rule exI [of _ "now e (Suc (clock_reads w1))"])
      apply (rule exI [of _ "[]"])
      apply (rule exI [of _ None])
      apply (rule exI [of _ msg])
      apply (simp add: lc a l)
      done
  qed
  then obtain t1 t2 t3 ag rp msg where x:
          "(redis_sets (review_lifecycle e rq w) = redis_sets w @
              [s1, s1\<lparr>status := Analyzing, progress := 10, updated_at := t1\<rparr>,
               s1\<lparr>status := Testing, progress := 60, agents := ag, updated_at := t2\<rparr>,
               s1\<lparr>status := Completed, progress := 100, agents := ag, report := rp,
                  updated_at := t3\<rparr>] \<and>
            emitted (review_lifecycle e rq w) = emitted w @
              [(sid, Progress_event \<lparr>ev_status = Analyzing, ev_progress = 10,
                       ev_message = ''Starting review...'', ev_report = None\<rparr>),
               (sid, Progress_event \<lparr>ev_status = Analyzing, ev_progress = 20,
                       ev_message = ''Sending to Council agents...'', ev_report = None\<rparr>),
               (sid, Progress_event \<lparr>ev_status = Testing, ev_progress = 60,
                       ev_message = ''Running tests in sandbox...'', ev_report = None\<rparr>),
               (sid, Progress_event \<lparr>ev_status = Completed, ev_progress = 100,
                       ev_message = ''Review complete!'', ev_report = rp\<rparr>)]) \<or>
           (redis_sets (review_lifecycle e rq w) = redis_sets w @
              [s1, s1\<lparr>status := Analyzing, progress := 10, updated_at := t1\<rparr>,
               s1\<lparr>status := Failed, progress := 10, error := Some msg, updated_at := t2\<rparr>] \<and>
            emitted (review_lifecycle e rq w) = emitted w @
              [(sid, Progress_event \<lparr>ev_status = Analyzing, ev_progress = 10,
                       ev_message = ''Starting review...'', ev_report = None\<rparr>),
               (sid, Progress_event \<lparr>ev_status = Analyzing, ev_progress = 20,
                       ev_message = ''Sending to Council agents...'', ev_report = None\<rparr>),
               (sid, Error_event msg)])"
    by blast
  show ?thesis
    unfolding sid_def [symmetric]
    apply (rule exI [of _ s1])
    apply (rule exI [of _ t1])
    apply (rule exI [of _ t2])
    apply (rule exI [of _ t3])
    apply (rule exI [of _ ag])
    apply (rule exI [of _ rp])
    apply (rule exI [of _ msg])
    apply (insert x)
    apply (simp only: i f)
    done
qed

lemma subseq_progress_values:
  "subseq ds evs \<Longrightarrow> subseq (progress_values ds) (progress_values evs)"
  apply (induction rule: list_emb.induct)
    apply (simp add: progress_values_def)
   apply (simp add: progress_values_def subseq_drop_many split_beta)
  apply (simp add: progress_values_def subseq_append' split_beta)
  done

lemma sorted_subseq:
  fixes xs :: "int list"
  shows "sorted xs \<Longrightarrow> subseq ys xs \<Longrightarrow> sorted ys"
  by (metis sorted_nths subseq_conv_nths)

lemma subseq_set: "subseq ys xs \<Longrightarrow> set ys \<subseteq> set xs"
  by (metis notin_set_nthsI subseq_conv_nths subsetI)

lemma review_lifecycle_rejected:
  "\<not> truthy (rq_code rq) \<Longrightarrow> review_lifecycle e rq w = w"
  by (simp add: review_lifecycle_def submit_def truthy_def split: option.splits)

lemma lifecycle_report_only_completed:
  assumes "s \<in> set (drop (length (redis_sets w)) (redis_sets (review_lifecycle e rq w)))"
    and "status s \<noteq> Completed"
  shows "report s = None"
proof (cases "truthy (rq_code rq)")
  case False
  with assms show ?thesis by (simp add: review_lifecycle_rejected)
next
  case True
  then obtain c where "rq_code rq = Some c" and "c \<noteq> []"
    by (auto simp add: truthy_def split: option.splits)
  from review_lifecycle_cases [OF this, of e w] assms
  show ?thesis by auto
qed

section \<open>Deleting a session\<close>

text \<open>
  Claim C9. Delete is idempotent: for every session id, whether a session is stored
  under it or not, two Delete calls in a row both answer 200 with the same
  acknowledgement \<open>Session deleted\<close>, the second call leaves the state as the first
  left it, and a status request after either call answers 404 \<open>Session not found\<close>.
\<close>

theorem delete_session_idempotent:
  "fst (delete_session sid w) = (200, Message_body ''Session deleted'') \<and>
   fst (delete_session sid (snd (delete_session sid w))) = fst (delete_session sid w) \<and>
   snd (delete_session sid (snd (delete_session sid w))) = snd (delete_session sid w) \<and>
   get_status sid (snd (delete_session sid w)) = (404, Error_body ''Session not found'') \<and>
   get_status sid (snd (delete_session sid (snd (delete_session sid w)))) =
     (404, Error_body ''Session not found'')"
  by (simp add: delete_session_def get_status_def getSession_def)

section \<open>Submitting a review\<close>

text \<open>
  Claim C6 as stated fails. The submit route starts the background task before it
  sends its response, and the first thing the task does is to store status
  \<open>analyzing\<close> with progress 10. A status request served after that write, while
  the task waits for the Council, does not answer \<open>pending\<close> with progress 0.
\<close>

theorem status_after_first_write_counterexample:
  "fst (submit (test_env (Inr None) sandbox_down) (code_only ''print(1)'') empty_world) =
     (200, Submit_body ''rev-0001'' Pending ''Review started'') \<and>
   fst (snd (submit (test_env (Inr None) sandbox_down) (code_only ''print(1)'') empty_world)) =
     Some ''rev-0001'' \<and>
   fst (review_begin (test_env (Inr None) sandbox_down) ''rev-0001''
          (snd (snd (submit (test_env (Inr None) sandbox_down) (code_only ''print(1)'')
                       empty_world)))) = Inr () \<and>
   get_status ''rev-0001''
     (snd (review_begin (test_env (Inr None) sandbox_down) ''rev-0001''
          (snd (snd (submit (test_env (Inr None) sandbox_down) (code_only ''print(1)'')
                       empty_world))))) =
     (200, Status_body ''rev-0001'' Analyzing 10 [])"
  by (simp add: submit_def read_clock_def get_status_def review_begin_def updateSession_def
        spread_updates_def no_updates_def Let_def code_only_def test_env_def empty_world_def)

text \<open>
  Claim C6, amended. For every valid submission (the code is there and not empty) the
  submit route stores the new session with status \<open>pending\<close> and progress 0 before
  it starts the background task, and a status request served before the task's first
  write answers 200 with status \<open>pending\<close>, progress 0 and no agents. The task's
  first write succeeds and stores \<open>analyzing\<close> with progress 10: a status request
  served after it, while the task waits for the Council, answers 200 with status
  \<open>analyzing\<close>, progress 10 and no agents. The writes up to that point are the
  first writes of the whole run of the task.
\<close>

theorem status_after_submit:
  assumes "rq_code rq = Some c" and "c \<noteq> []"
  shows "\<exists>sid w1 s.
           sid = ''rev-'' @ uuidv4 e (uuids_drawn w) \<and>
           submit e rq w = ((200, Submit_body sid Pending ''Review started''), Some sid, w1) \<and>
           getSession w1 sid = Some s \<and> status s = Pending \<and> progress s = 0 \<and>
           redis_sets w1 = redis_sets w @ [s] \<and>
           get_status sid w1 = (200, Status_body sid Pending 0 []) \<and>
           fst (review_begin e sid w1) = Inr () \<and>
           get_status sid (snd (review_begin e sid w1)) =
             (200, Status_body sid Analyzing 10 []) \<and>
           prefix (redis_sets (snd (review_begin e sid w1)))
                  (redis_sets (snd (processReview e sid w1)))"
proof -
  define sid where "sid = ''rev-'' @ uuidv4 e (uuids_drawn w)"
  from submit_valid [OF assms, of e w] obtain s w1 where
    sub: "submit e rq w = ((200, Submit_body sid Pending ''Review started''), Some sid, w1)"
    and g: "getSession w1 sid = Some s" and i: "session_id s = sid"
    and f: "status s = Pending" "progress s = 0" "agents s = []"
    and l: "redis_sets w1 = redis_sets w @ [s]"
    unfolding sid_def by blast
  let ?s1 = "s\<lparr>status := Analyzing, progress := 10, updated_at := now e (clock_reads w1)\<rparr>"
  have st: "get_status sid w1 = (200, Status_body sid Pending 0 [])"
    by (simp add: get_status_def g i f)
  have rb: "fst (review_begin e sid w1) = Inr ()"
    "getSession (snd (review_begin e sid w1)) sid = Some ?s1"
    "redis_sets (snd (review_begin e sid w1)) = redis_sets w1 @ [?s1]"
    using i
    by (simp_all add: review_begin_def updateSession_present [OF g] spread_updates_def
          no_updates_def)
  have st': "get_status sid (snd (review_begin e sid w1)) =
               (200, Status_body sid Analyzing 10 [])"
    by (simp add: get_status_def rb(2) i f)
  let ?rq = "\<lparr>cn_endpoint = ''/council/review'',
       cn_data = Review_data (code s) (language s) (context_text s) (quality_gates s)\<rparr>"
  have pf: "prefix (redis_sets (snd (review_begin e sid w1)))
                   (redis_sets (snd (processReview e sid w1)))"
  proof (cases "council e ?rq")
    case (Inl m)
    then have "(case council e ?rq of
            Inl m \<Rightarrow> Some (''Council service error: '' @ m)
          | Inr None \<Rightarrow> Some (type_error ''agents'')
          | Inr (Some cr) \<Rightarrow> None) = Some (''Council service error: '' @ m)" by simp
    from processReview_analysis_failed(3) [OF g i this] show ?thesis
      by (simp add: rb(3))
  next
    case (Inr b)
    show ?thesis
    proof (cases b)
      case None
      with Inr have "(case council e ?rq of
            Inl m \<Rightarrow> Some (''Council service error: '' @ m)
          | Inr None \<Rightarrow> Some (type_error ''agents'')
          | Inr (Some cr) \<Rightarrow> None) = Some (type_error ''agents'')" by simp
      from processReview_analysis_failed(3) [OF g i this] show ?thesis
        by (simp add: rb(3))
    next
      case (Some cr)
      with Inr have "council e ?rq = Inr (Some cr)" by simp
      from processReview_analysed(3) [OF g i this] show ?thesis
        by (simp add: rb(3))
    qed
  qed
  show ?thesis
    unfolding sid_def [symmetric]
    apply (rule exI [of _ sid])
    apply (rule exI [of _ w1])
    apply (rule exI [of _ s])
    apply (insert sub g f l st rb(1) st' pf)
    apply simp
    done
qed

text \<open>The amended claim at a concrete submission.\<close>

theorem status_after_submit_witness:
  "rq_code (code_only ''print(1)'') = Some ''print(1)'' \<and> ''print(1)'' \<noteq> [] \<and>
   submit (test_env (Inr None) sandbox_down) (code_only ''print(1)'') empty_world =
     ((200, Submit_body ''rev-0001'' Pending ''Review started''), Some ''rev-0001'',
      snd (snd (submit (test_env (Inr None) sandbox_down) (code_only ''print(1)'') empty_world))) \<and>
   get_status ''rev-0001''
     (snd (snd (submit (test_env (Inr None) sandbox_down) (code_only ''print(1)'') empty_world))) =
     (200, Status_body ''rev-0001'' Pending 0 []) \<and>
   get_status ''rev-0001''
     (snd (review_begin (test_env (Inr None) sandbox_down) ''rev-0001''
        (snd (snd (submit (test_env (Inr None) sandbox_down) (code_only ''print(1)'')
                     empty_world))))) =
     (200, Status_body ''rev-0001'' Analyzing 10 [])"
  using status_after_submit [of "code_only ''print(1)''" "''print(1)''"
          "test_env (Inr None) sandbox_down" empty_world]
  by (auto simp add: code_only_def test_env_def empty_world_def)

text \<open>
  Claim C4 as stated fails: a submission whose \<open>quality_gates\<close> list is empty, or
  holds a name that is no analysis capability, is accepted and its session stored.
\<close>

theorem submit_unchecked_gates_counterexample:
  "fst (submit (test_env (Inr None) sandbox_down)
          ((code_only ''print(1)'')\<lparr>rq_quality_gates := Some []\<rparr>) empty_world) =
     (200, Submit_body ''rev-0001'' Pending ''Review started'') \<and>
   map_option quality_gates
     (getSession (snd (snd (submit (test_env (Inr None) sandbox_down)
          ((code_only ''print(1)'')\<lparr>rq_quality_gates := Some []\<rparr>) empty_world))) ''rev-0001'') =
     Some [] \<and>
   fst (submit (test_env (Inr None) sandbox_down)
          ((code_only ''print(1)'')\<lparr>rq_quality_gates := Some [''astrology'']\<rparr>) empty_world) =
     (200, Submit_body ''rev-0001'' Pending ''Review started'') \<and>
   map_option quality_gates
     (getSession (snd (snd (submit (test_env (Inr None) sandbox_down)
          ((code_only ''print(1)'')\<lparr>rq_quality_gates := Some [''astrology'']\<rparr>) empty_world))) ''rev-0001'') =
     Some [''astrology'']"
  by (simp add: submit_def read_clock_def Let_def code_only_def test_env_def empty_world_def)

text \<open>
  Claim C4, amended. The submit route rejects a request with 400 \<open>Code is required\<close>,
  creating no session and starting no task, exactly when the code is missing or
  empty. Every other request is accepted and its session is stored with the
  \<open>quality_gates\<close> list as it was sent (the three default gates when it was left
  out); the list is not checked.
\<close>

theorem submit_validates_code_only:
  "(\<not> truthy (rq_code rq) \<longrightarrow>
      submit e rq w = ((400, Error_body ''Code is required''), None, w)) \<and>
   (truthy (rq_code rq) \<longrightarrow>
      fst (submit e rq w) =
        (200, Submit_body (''rev-'' @ uuidv4 e (uuids_drawn w)) Pending ''Review started'') \<and>
      map_option quality_gates
        (getSession (snd (snd (submit e rq w))) (''rev-'' @ uuidv4 e (uuids_drawn w))) =
        Some (case rq_quality_gates rq of
                None \<Rightarrow> [''qa'', ''security'', ''performance''] | Some g \<Rightarrow> g))"
  by (simp add: submit_def truthy_def read_clock_def Let_def split: option.splits)

text \<open>The amended claim at an accepted and at a rejected submission.\<close>

theorem submit_validates_code_only_witness:
  "truthy (rq_code ((code_only ''print(1)'')\<lparr>rq_quality_gates := Some []\<rparr>)) \<and>
   \<not> truthy (rq_code ((code_only [])\<lparr>rq_quality_gates := Some [''qa'']\<rparr>)) \<and>
   submit (test_env (Inr None) sandbox_down)
          ((code_only [])\<lparr>rq_quality_gates := Some [''qa'']\<rparr>) empty_world =
     ((400, Error_body ''Code is required''), None, empty_world) \<and>
   map_option quality_gates
     (getSession (snd (snd (submit (test_env (Inr None) sandbox_down)
          ((code_only ''print(1)'')\<lparr>rq_quality_gates := Some []\<rparr>) empty_world))) ''rev-0001'') =
     Some []"
  using submit_validates_code_only [of "(code_only ''print(1)'')\<lparr>rq_quality_gates := Some []\<rparr>"
          "test_env (Inr None) sandbox_down" empty_world]
        submit_validates_code_only [of "(code_only [])\<lparr>rq_quality_gates := Some [''qa'']\<rparr>"
          "test_env (Inr None) sandbox_down" empty_world]
  by (simp add: truthy_def code_only_def test_env_def empty_world_def)

section \<open>The execution phase\<close>

text \<open>
  Claim C1 (the sandbox is released exactly once on every exit path of the execution
  phase) does not hold of the code. When the Council returns test code, the Sandbox
  creates \<open>sb-1\<close> and the \<open>execute\<close> call then times out, the task has made two
  calls, both \<open>POST\<close> (\<open>create\<close> and \<open>execute\<close>), and no \<open>DELETE\<close>: the sandbox
  is left behind, and the session is completed.
\<close>

theorem sandbox_left_after_execute_error:
  "sandbox_calls (snd (processReview
      (test_env (Inr (Some (bare_json\<lparr>cj_test_code := Some ''assert ok''\<rparr>))) sandbox_slow)
      ''rev-0001'' pending_world)) =
     [create_request pending_session,
      execute_request pending_session (bare_json\<lparr>cj_test_code := Some ''assert ok''\<rparr>)
        \<lparr>sandbox_id = Some ''sb-1'', results = None\<rparr>] \<and>
   map sb_method (sandbox_calls (snd (processReview
      (test_env (Inr (Some (bare_json\<lparr>cj_test_code := Some ''assert ok''\<rparr>))) sandbox_slow)
      ''rev-0001'' pending_world))) = [''POST'', ''POST''] \<and>
   map_option status (getSession (snd (processReview
      (test_env (Inr (Some (bare_json\<lparr>cj_test_code := Some ''assert ok''\<rparr>))) sandbox_slow)
      ''rev-0001'' pending_world)) ''rev-0001'') = Some Completed"
proof -
  let ?cr = "bare_json\<lparr>cj_test_code := Some ''assert ok''\<rparr>"
  let ?e = "test_env (Inr (Some ?cr)) sandbox_slow"
  have c: "council ?e \<lparr>cn_endpoint = ''/council/review'',
       cn_data = Review_data (code pending_session) (language pending_session)
          (context_text pending_session) (quality_gates pending_session)\<rparr> = Inr (Some ?cr)"
    by (simp add: test_env_def)
  note a = processReview_analysed [OF pending_world_session c]
  from a(5) obtain w6 where w6: "sandbox_calls w6 = sandbox_calls pending_world"
    and "sandbox_calls (snd (processReview ?e ''rev-0001'' pending_world)) =
           sandbox_calls (snd (sandbox_phase ?e pending_session ?cr w6))"
    by blast
  then have "sandbox_calls (snd (processReview ?e ''rev-0001'' pending_world)) =
     [create_request pending_session,
      execute_request pending_session ?cr \<lparr>sandbox_id = Some ''sb-1'', results = None\<rparr>]"
    by (simp add: sandbox_phase_def run_tests_def callSandbox_def truthy_def template_def
          test_env_def sandbox_slow_def bare_json_def pending_session_def pending_world_def
          empty_world_def request_defs Let_def)
  then show ?thesis
    by (simp add: a(2)) (simp add: request_defs)
qed

text \<open>
  Claim C2 as stated fails: for an analysis result without test code the stored
  status still becomes \<open>testing\<close> on the way from \<open>analyzing\<close> to \<open>completed\<close>.
\<close>

theorem testing_state_without_tests_counterexample:
  "cj_test_code bare_json = None \<and>
   map status (redis_sets (snd (processReview (test_env (Inr (Some bare_json)) sandbox_down)
      ''rev-0001'' pending_world))) = [Pending, Analyzing, Testing, Completed]"
proof -
  have c: "council (test_env (Inr (Some bare_json)) sandbox_down) \<lparr>cn_endpoint = ''/council/review'',
       cn_data = Review_data (code pending_session) (language pending_session)
          (context_text pending_session) (quality_gates pending_session)\<rparr> =
        Inr (Some bare_json)"
    by (simp add: test_env_def)
  show ?thesis
    using processReview_analysed(3) [OF pending_world_session c]
    by (simp add: bare_json_def pending_session_def pending_world_def empty_world_def)
qed

text \<open>
  Claim C2, amended. For every session whose analysis result holds no test code the
  task makes no call to the Sandbox at all: nothing is created, executed or deleted.
  The stored status still goes through \<open>testing\<close> (with progress 60) before it
  becomes \<open>completed\<close>: the three writes of the run are \<open>analyzing\<close>, \<open>testing\<close>,
  \<open>completed\<close>.
\<close>

theorem no_tests_no_sandbox:
  assumes "getSession w sid = Some s" and "session_id s = sid"
    and "council e (review_request s) = Inr (Some cr)"
    and "\<not> truthy (cj_test_code cr)"
  shows "sandbox_calls (snd (processReview e sid w)) = sandbox_calls w \<and>
         map status (drop (length (redis_sets w)) (redis_sets (snd (processReview e sid w)))) =
           [Analyzing, Testing, Completed] \<and>
         map progress (drop (length (redis_sets w)) (redis_sets (snd (processReview e sid w)))) =
           [10, 60, 100] \<and>
         map_option status (getSession (snd (processReview e sid w)) sid) = Some Completed"
proof -
  note a = processReview_analysed [OF assms(1,2) assms(3) [unfolded review_request_def]]
  from a(5) obtain w6 where "sandbox_calls w6 = sandbox_calls w"
    and "sandbox_calls (snd (processReview e sid w)) = sandbox_calls (snd (sandbox_phase e s cr w6))"
    by blast
  then have "sandbox_calls (snd (processReview e sid w)) = sandbox_calls w"
    by (simp add: sandbox_phase_skipped [OF assms(4)])
  then show ?thesis by (simp add: a(2,3))
qed

text \<open>The amended claim on the stored session \<open>rev-0001\<close>.\<close>

theorem no_tests_no_sandbox_witness:
  "getSession pending_world ''rev-0001'' = Some pending_session \<and>
   \<not> truthy (cj_test_code bare_json) \<and>
   sandbox_calls (snd (processReview (test_env (Inr (Some bare_json)) sandbox_down)
      ''rev-0001'' pending_world)) = [] \<and>
   map status (redis_sets (snd (processReview (test_env (Inr (Some bare_json)) sandbox_down)
      ''rev-0001'' pending_world))) = [Pending, Analyzing, Testing, Completed] \<and>
   map progress (redis_sets (snd (processReview (test_env (Inr (Some bare_json)) sandbox_down)
      ''rev-0001'' pending_world))) = [0, 10, 60, 100]"
proof -
  let ?w = "snd (processReview (test_env (Inr (Some bare_json)) sandbox_down)
      ''rev-0001'' pending_world)"
  have h3: "council (test_env (Inr (Some bare_json)) sandbox_down) (review_request pending_session)
              = Inr (Some bare_json)"
    by (simp add: test_env_def)
  have h4: "\<not> truthy (cj_test_code bare_json)" by (simp add: truthy_def bare_json_def)
  have l: "redis_sets pending_world = [pending_session]"
    by (simp add: pending_world_def empty_world_def)
  note t = no_tests_no_sandbox [OF pending_world_session h3 h4]
  have r: "map status (redis_sets ?w) = [Pending, Analyzing, Testing, Completed]"
    "map progress (redis_sets ?w) = [0, 10, 60, 100]"
    using processReview_analysed(3) [OF pending_world_session h3 [unfolded review_request_def]]
    by (simp_all add: l pending_session_def)
  from t h4 r show ?thesis by (simp add: pending_world_def empty_world_def)
qed

text \<open>
  Claim C3 as stated fails: when the \<open>execute\<close> call to the Sandbox times out, the
  session ends \<open>completed\<close> with no error, and the four progress events are all that
  is emitted.
\<close>

theorem sandbox_timeout_completes_counterexample:
  "sandbox (test_env (Inr (Some (bare_json\<lparr>cj_test_code := Some ''assert ok''\<rparr>))) sandbox_slow)
     (execute_request pending_session (bare_json\<lparr>cj_test_code := Some ''assert ok''\<rparr>)
        \<lparr>sandbox_id = Some ''sb-1'', results = None\<rparr>) = Inl ''timeout of 180000ms exceeded'' \<and>
   map_option status (getSession (snd (processReview
          (test_env (Inr (Some (bare_json\<lparr>cj_test_code := Some ''assert ok''\<rparr>))) sandbox_slow)
          ''rev-0001'' pending_world)) ''rev-0001'') = Some Completed \<and>
   map_option error (getSession (snd (processReview
          (test_env (Inr (Some (bare_json\<lparr>cj_test_code := Some ''assert ok''\<rparr>))) sandbox_slow)
          ''rev-0001'' pending_world)) ''rev-0001'') = Some None \<and>
   map snd (emitted (snd (processReview
          (test_env (Inr (Some (bare_json\<lparr>cj_test_code := Some ''assert ok''\<rparr>))) sandbox_slow)
          ''rev-0001'' pending_world))) =
     [Progress_event \<lparr>ev_status = Analyzing, ev_progress = 10,
                       ev_message = ''Starting review...'', ev_report = None\<rparr>,
      Progress_event \<lparr>ev_status = Analyzing, ev_progress = 20,
                       ev_message = ''Sending to Council agents...'', ev_report = None\<rparr>,
      Progress_event \<lparr>ev_status = Testing, ev_progress = 60,
                       ev_message = ''Running tests in sandbox...'', ev_report = None\<rparr>,
      Progress_event \<lparr>ev_status = Completed, ev_progress = 100,
                       ev_message = ''Review complete!'', ev_report = None\<rparr>]"
proof -
  let ?cr = "bare_json\<lparr>cj_test_code := Some ''assert ok''\<rparr>"
  let ?e = "test_env (Inr (Some ?cr)) sandbox_slow"
  have c: "council ?e \<lparr>cn_endpoint = ''/council/review'',
       cn_data = Review_data (code pending_session) (language pending_session)
          (context_text pending_session) (quality_gates pending_session)\<rparr> = Inr (Some ?cr)"
    by (simp add: test_env_def)
  note a = processReview_analysed [OF pending_world_session c]
  show ?thesis
    by (simp add: a)
       (simp add: pending_session_def pending_world_def empty_world_def bare_json_def
          test_env_def sandbox_slow_def execute_request_def template_def)
qed

text \<open>
  Claim C3, amended. In the execution phase a transport error of the Sandbox (on the
  \<open>create\<close>, the \<open>execute\<close> or the \<open>DELETE\<close> call) is not fatal to the session: the
  task catches it, records \<open>Sandbox service error: ...\<close> as the \<open>error\<close> of the
  local \<open>test_results\<close>, and goes on to store the session as \<open>completed\<close> with
  progress 100; the session's \<open>error\<close> field is left as it was and no \<open>'error'\<close>
  event is emitted.
\<close>

theorem sandbox_error_not_fatal:
  assumes "getSession w sid = Some s" and "session_id s = sid"
    and "council e (review_request s) = Inr (Some cr)"
    and "truthy (cj_test_code cr)"
    and "sandbox e (create_request s) = Inl m \<or>
           (\<exists>sb. sandbox e (create_request s) = Inr (Some sb) \<and>
              (sandbox e (execute_request s cr sb) = Inl m \<or>
               (\<exists>tr. sandbox e (execute_request s cr sb) = Inr tr \<and>
                     sandbox e (delete_request sb) = Inl m)))"
  shows "fst (processReview e sid w) = Inr () \<and>
         map_option status (getSession (snd (processReview e sid w)) sid) = Some Completed \<and>
         map_option progress (getSession (snd (processReview e sid w)) sid) = Some 100 \<and>
         map_option error (getSession (snd (processReview e sid w)) sid) = Some (error s) \<and>
         (\<forall>x. (sid, Error_event x) \<notin>
                set (drop (length (emitted w)) (emitted (snd (processReview e sid w))))) \<and>
         (\<forall>w'. cj_test_results (fst (sandbox_phase e s cr w')) =
                  Some (Test_error (''Sandbox service error: '' @ m)))"
proof -
  note a = processReview_analysed [OF assms(1,2) assms(3) [unfolded review_request_def]]
  have "\<forall>w'. cj_test_results (fst (sandbox_phase e s cr w')) =
                  Some (Test_error (''Sandbox service error: '' @ m))"
    using run_tests_raises [OF assms(5)] assms(4)
    by (simp add: sandbox_phase_def split_beta)
  then show ?thesis
    by (simp add: a)
qed

text \<open>The amended claim with a Sandbox that cannot be reached.\<close>

theorem sandbox_error_not_fatal_witness:
  "getSession pending_world ''rev-0001'' = Some pending_session \<and>
   truthy (cj_test_code (bare_json\<lparr>cj_test_code := Some ''assert ok''\<rparr>)) \<and>
   sandbox (test_env (Inr (Some (bare_json\<lparr>cj_test_code := Some ''assert ok''\<rparr>))) sandbox_down)
     (create_request pending_session) = Inl ''connect ECONNREFUSED'' \<and>
   fst (processReview
          (test_env (Inr (Some (bare_json\<lparr>cj_test_code := Some ''assert ok''\<rparr>))) sandbox_down)
          ''rev-0001'' pending_world) = Inr () \<and>
   map_option status (getSession (snd (processReview
          (test_env (Inr (Some (bare_json\<lparr>cj_test_code := Some ''assert ok''\<rparr>))) sandbox_down)
          ''rev-0001'' pending_world)) ''rev-0001'') = Some Completed \<and>
   cj_test_results (fst (sandbox_phase
          (test_env (Inr (Some (bare_json\<lparr>cj_test_code := Some ''assert ok''\<rparr>))) sandbox_down)
          pending_session (bare_json\<lparr>cj_test_code := Some ''assert ok''\<rparr>) pending_world)) =
     Some (Test_error ''Sandbox service error: connect ECONNREFUSED'')"
proof -
  let ?cr = "bare_json\<lparr>cj_test_code := Some ''assert ok''\<rparr>"
  let ?e = "test_env (Inr (Some ?cr)) sandbox_down"
  have h3: "council ?e (review_request pending_session) = Inr (Some ?cr)"
    by (simp add: test_env_def)
  have h4: "truthy (cj_test_code ?cr)" by (simp add: truthy_def)
  have h5: "sandbox ?e (create_request pending_session) = Inl ''connect ECONNREFUSED''"
    by (simp add: test_env_def sandbox_down_def)
  from sandbox_error_not_fatal [OF pending_world_session h3 h4 disjI1 [OF h5]] h4 h5
  show ?thesis by simp
qed

section \<open>Completed sessions\<close>

text \<open>
  Claim C7 as stated fails: when the Council's answer has neither \<open>report\<close> nor
  \<open>agents\<close>, the session is completed with no report and an empty agent list,
  although three quality gates were requested.
\<close>

theorem completed_without_report_counterexample:
  "map_option status
     (getSession (snd (processReview (test_env (Inr (Some bare_json)) sandbox_down)
        ''rev-0001'' pending_world)) ''rev-0001'') = Some Completed \<and>
   map_option report
     (getSession (snd (processReview (test_env (Inr (Some bare_json)) sandbox_down)
        ''rev-0001'' pending_world)) ''rev-0001'') = Some None \<and>
   map_option agents
     (getSession (snd (processReview (test_env (Inr (Some bare_json)) sandbox_down)
        ''rev-0001'' pending_world)) ''rev-0001'') = Some [] \<and>
   map_option quality_gates
     (getSession (snd (processReview (test_env (Inr (Some bare_json)) sandbox_down)
        ''rev-0001'' pending_world)) ''rev-0001'') = Some [''qa'', ''security'', ''performance'']"
proof -
  have c: "council (test_env (Inr (Some bare_json)) sandbox_down) \<lparr>cn_endpoint = ''/council/review'',
       cn_data = Review_data (code pending_session) (language pending_session)
          (context_text pending_session) (quality_gates pending_session)\<rparr> =
        Inr (Some bare_json)"
    by (simp add: test_env_def)
  show ?thesis
    using processReview_analysed(2) [OF pending_world_session c]
    by (simp add: bare_json_def pending_session_def)
qed

text \<open>
  Claim C7, amended. For every session that reaches \<open>completed\<close>, the Council has
  answered the review request with a body that is not \<open>null\<close> (it may be a body
  with none of the properties, as for a response with no content); the stored report
  is that body's \<open>report\<close> (none when the body has none), the stored agent list is
  that body's \<open>agents\<close> (empty when the body has none), whatever the requested
  quality gates are, and the progress is 100.
\<close>

theorem completed_session_contents:
  assumes "getSession w sid = Some s" and "session_id s = sid"
    and "getSession (snd (processReview e sid w)) sid = Some s'"
    and "status s' = Completed"
  shows "\<exists>cr. council e \<lparr>cn_endpoint = ''/council/review'',
                  cn_data = Review_data (code s) (language s) (context_text s)
                              (quality_gates s)\<rparr> = Inr (Some cr) \<and>
              report s' = cj_report cr \<and>
              agents s' = (case cj_agents cr of None \<Rightarrow> [] | Some a \<Rightarrow> a) \<and>
              progress s' = 100 \<and> quality_gates s' = quality_gates s"
proof (cases "council e \<lparr>cn_endpoint = ''/council/review'',
                  cn_data = Review_data (code s) (language s) (context_text s)
                              (quality_gates s)\<rparr>")
  case (Inl m)
  then have "status s' = Failed"
    using processReview_analysis_failed(2) [OF assms(1,2), of e "''Council service error: '' @ m"]
      assms(3) by auto
  with assms(4) show ?thesis by simp
next
  case (Inr body)
  show ?thesis
  proof (cases body)
    case None
    with Inr have "status s' = Failed"
      using processReview_analysis_failed(2) [OF assms(1,2), of e "type_error ''agents''"]
        assms(3) by auto
    with assms(4) show ?thesis by simp
  next
    case (Some cr)
    with Inr have "council e \<lparr>cn_endpoint = ''/council/review'',
                  cn_data = Review_data (code s) (language s) (context_text s)
                              (quality_gates s)\<rparr> = Inr (Some cr)" by simp
    from processReview_analysed(2) [OF assms(1,2) this] assms(3) this
    show ?thesis by auto
  qed
qed

text \<open>The amended claim for a Council that returns a report and no agents.\<close>

theorem completed_session_contents_witness:
  "getSession pending_world ''rev-0001'' = Some pending_session \<and>
   session_id pending_session = ''rev-0001'' \<and>
   getSession (snd (processReview
      (test_env (Inr (Some (bare_json\<lparr>cj_report := Some lint_report\<rparr>))) sandbox_down)
      ''rev-0001'' pending_world)) ''rev-0001'' =
     Some (pending_session\<lparr>status := Completed, progress := 100, report := Some lint_report\<rparr>) \<and>
   (\<exists>cr. council (test_env (Inr (Some (bare_json\<lparr>cj_report := Some lint_report\<rparr>))) sandbox_down)
            \<lparr>cn_endpoint = ''/council/review'',
             cn_data = Review_data ''print(1)'' ''javascript'' []
                         [''qa'', ''security'', ''performance'']\<rparr> = Inr (Some cr) \<and>
         cj_report cr = Some lint_report \<and> cj_agents cr = None)"
proof -
  let ?e = "test_env (Inr (Some (bare_json\<lparr>cj_report := Some lint_report\<rparr>))) sandbox_down"
  let ?s' = "pending_session\<lparr>status := Completed, progress := 100, report := Some lint_report\<rparr>"
  have c: "council ?e \<lparr>cn_endpoint = ''/council/review'',
       cn_data = Review_data (code pending_session) (language pending_session)
          (context_text pending_session) (quality_gates pending_session)\<rparr> =
        Inr (Some (bare_json\<lparr>cj_report := Some lint_report\<rparr>))"
    by (simp add: test_env_def)
  have h3: "getSession (snd (processReview ?e ''rev-0001'' pending_world)) ''rev-0001'' = Some ?s'"
    using processReview_analysed(2) [OF pending_world_session c]
    by (simp add: bare_json_def pending_session_def test_env_def)
  have h4: "status ?s' = Completed" by simp
  from completed_session_contents [OF pending_world_session h3 h4] h3
  show ?thesis by (auto simp add: pending_session_def bare_json_def test_env_def)
qed

section \<open>Progress\<close>

text \<open>
  Claim C8. Over the lifetime of a session (the submit route and then the background
  task), the progress values written to the store for it are whole numbers between 0
  and 100 in non-decreasing order, and so are the progress values of the
  \<open>'progress'\<close> events in any subsequence of the events emitted, that is, in what
  any one subscriber receives.
\<close>

theorem progress_never_decreases:
  assumes "rq_code rq = Some c" and "c \<noteq> []"
  shows "sorted (map progress (drop (length (redis_sets w)) (redis_sets (review_lifecycle e rq w)))) \<and>
         (\<forall>s \<in> set (drop (length (redis_sets w)) (redis_sets (review_lifecycle e rq w))).
            session_id s = ''rev-'' @ uuidv4 e (uuids_drawn w) \<and>
            0 \<le> progress s \<and> progress s \<le> 100) \<and>
         (\<forall>ds. subseq ds (drop (length (emitted w)) (emitted (review_lifecycle e rq w))) \<longrightarrow>
            sorted (progress_values ds) \<and>
            (\<forall>p \<in> set (progress_values ds). 0 \<le> p \<and> p \<le> 100))"
proof -
  from review_lifecycle_cases [OF assms, of e w] obtain s1 t1 t2 t3 ag rp msg where
    s1: "session_id s1 = ''rev-'' @ uuidv4 e (uuids_drawn w)" "progress s1 = 0"
    and cs: "(redis_sets (review_lifecycle e rq w) = redis_sets w @
              [s1, s1\<lparr>status := Analyzing, progress := 10, updated_at := t1\<rparr>,
               s1\<lparr>status := Testing, progress := 60, agents := ag, updated_at := t2\<rparr>,
               s1\<lparr>status := Completed, progress := 100, agents := ag, report := rp,
                  updated_at := t3\<rparr>] \<and>
            emitted (review_lifecycle e rq w) = emitted w @
              [(session_id s1, Progress_event \<lparr>ev_status = Analyzing, ev_progress = 10,
                       ev_message = ''Starting review...'', ev_report = None\<rparr>),
               (session_id s1, Progress_event \<lparr>ev_status = Analyzing, ev_progress = 20,
                       ev_message = ''Sending to Council agents...'', ev_report = None\<rparr>),
               (session_id s1, Progress_event \<lparr>ev_status = Testing, ev_progress = 60,
                       ev_message = ''Running tests in sandbox...'', ev_report = None\<rparr>),
               (session_id s1, Progress_event \<lparr>ev_status = Completed, ev_progress = 100,
                       ev_message = ''Review complete!'', ev_report = rp\<rparr>)]) \<or>
           (redis_sets (review_lifecycle e rq w) = redis_sets w @
              [s1, s1\<lparr>status := Analyzing, progress := 10, updated_at := t1\<rparr>,
               s1\<lparr>status := Failed, progress := 10, error := Some msg, updated_at := t2\<rparr>] \<and>
            emitted (review_lifecycle e rq w) = emitted w @
              [(session_id s1, Progress_event \<lparr>ev_status = Analyzing, ev_progress = 10,
                       ev_message = ''Starting review...'', ev_report = None\<rparr>),
               (session_id s1, Progress_event \<lparr>ev_status = Analyzing, ev_progress = 20,
                       ev_message = ''Sending to Council agents...'', ev_report = None\<rparr>),
               (session_id s1, Error_event msg)])"
    by blast
  let ?writes = "drop (length (redis_sets w)) (redis_sets (review_lifecycle e rq w))"
  let ?events = "drop (length (emitted w)) (emitted (review_lifecycle e rq w))"
  have w: "map progress ?writes = [0, 10, 60, 100] \<or> map progress ?writes = [0, 10, 10]"
    using cs s1 by auto
  have i: "\<forall>s \<in> set ?writes. session_id s = ''rev-'' @ uuidv4 e (uuids_drawn w)"
    using cs s1 by auto
  have v: "progress_values ?events = [10, 20, 60, 100] \<or> progress_values ?events = [10, 20]"
    using cs by (auto simp add: progress_values_def)
  have sw: "sorted (map progress ?writes)" using w by auto
  have bw: "\<forall>s \<in> set ?writes. 0 \<le> progress s \<and> progress s \<le> 100"
  proof
    fix s assume "s \<in> set ?writes"
    then have "progress s \<in> set (map progress ?writes)" by simp
    with w show "0 \<le> progress s \<and> progress s \<le> 100" by auto
  qed
  have se: "sorted (progress_values ?events)" using v by auto
  have be: "\<forall>p \<in> set (progress_values ?events). 0 \<le> p \<and> p \<le> 100" using v by auto
  have "\<forall>ds. subseq ds ?events \<longrightarrow>
            sorted (progress_values ds) \<and> (\<forall>p \<in> set (progress_values ds). 0 \<le> p \<and> p \<le> 100)"
  proof (intro allI impI)
    fix ds assume "subseq ds ?events"
    then have ss: "subseq (progress_values ds) (progress_values ?events)"
      by (rule subseq_progress_values)
    from sorted_subseq [OF se ss] subseq_set [OF ss] be
    show "sorted (progress_values ds) \<and> (\<forall>p \<in> set (progress_values ds). 0 \<le> p \<and> p \<le> 100)"
      by blast
  qed
  with sw bw i show ?thesis by blast
qed

text \<open>The claim on a review that completes: 0, 10, 60, 100 stored and 10, 20, 60, 100 emitted.\<close>

theorem progress_never_decreases_witness:
  "rq_code (code_only ''print(1)'') = Some ''print(1)'' \<and> ''print(1)'' \<noteq> [] \<and>
   map progress (redis_sets (review_lifecycle (test_env (Inr (Some bare_json)) sandbox_down)
      (code_only ''print(1)'') empty_world)) = [0, 10, 60, 100] \<and>
   sorted (map progress (redis_sets (review_lifecycle (test_env (Inr (Some bare_json)) sandbox_down)
      (code_only ''print(1)'') empty_world))) \<and>
   progress_values (emitted (review_lifecycle (test_env (Inr (Some bare_json)) sandbox_down)
      (code_only ''print(1)'') empty_world)) = [10, 20, 60, 100] \<and>
   sorted (progress_values (emitted (review_lifecycle (test_env (Inr (Some bare_json)) sandbox_down)
      (code_only ''print(1)'') empty_world)))"
proof -
  let ?e = "test_env (Inr (Some bare_json)) sandbox_down"
  have h1: "rq_code (code_only ''print(1)'') = Some ''print(1)''" by (simp add: code_only_def)
  have h2: "''print(1)'' \<noteq> []" by simp
  define w1 where "w1 = snd (snd (submit ?e (code_only ''print(1)'') empty_world))"
  have sub: "submit ?e (code_only ''print(1)'') empty_world =
               ((200, Submit_body ''rev-0001'' Pending ''Review started''), Some ''rev-0001'', w1)"
    unfolding w1_def
    by (simp add: submit_def read_clock_def code_only_def test_env_def Let_def)
  have g: "getSession w1 ''rev-0001'' = Some pending_session"
    "redis_sets w1 = [pending_session]" "emitted w1 = []"
    unfolding w1_def
    by (simp_all add: submit_def read_clock_def code_only_def test_env_def empty_world_def
          pending_session_def Let_def)
  have c: "council ?e \<lparr>cn_endpoint = ''/council/review'',
       cn_data = Review_data (code pending_session) (language pending_session)
          (context_text pending_session) (quality_gates pending_session)\<rparr> = Inr (Some bare_json)"
    by (simp add: test_env_def)
  note a = processReview_analysed [OF g(1) pending_world_session(2) c]
  have w: "map progress (redis_sets (review_lifecycle ?e (code_only ''print(1)'') empty_world)) =
             [0, 10, 60, 100]"
    by (simp add: review_lifecycle_def sub a g) (simp add: pending_session_def)
  have v: "progress_values (emitted (review_lifecycle ?e (code_only ''print(1)'') empty_world)) =
             [10, 20, 60, 100]"
    by (simp add: review_lifecycle_def sub a g progress_values_def)
  from progress_never_decreases [OF h1 h2, of empty_world ?e] h1 h2 w v
  show ?thesis by (simp add: empty_world_def)
qed

section \<open>Failed sessions\<close>

text \<open>
  Claim C10. On the transition into \<open>failed\<close> only \<open>status\<close>, \<open>error\<close> and
  \<open>updated_at\<close> of the stored session change: when the body of the task throws
  \<open>m\<close>, the session stored at the end of the run is the session stored at that
  moment with status \<open>failed\<close>, error \<open>m\<close> and a new \<open>updated_at\<close>, and every
  other field (id, code, language, context, quality gates, progress, agents,
  \<open>created_at\<close>, report) as it was. In particular the progress is not reset.
\<close>

theorem failure_changes_three_fields:
  assumes "getSession w sid = Some s0"
    and "fst (review_steps e sid s0 w) = Inl m"
    and "getSession (snd (review_steps e sid s0 w)) sid = Some s"
    and "session_id s = sid"
  shows "\<exists>s'. getSession (snd (processReview e sid w)) sid = Some s' \<and>
              s' = s\<lparr>status := Failed, error := Some m,
                      updated_at := now e (clock_reads (snd (review_steps e sid s0 w)))\<rparr> \<and>
              status s' = Failed \<and> error s' = Some m \<and>
              session_id s' = session_id s \<and> code s' = code s \<and> language s' = language s \<and>
              context_text s' = context_text s \<and> quality_gates s' = quality_gates s \<and>
              progress s' = progress s \<and> agents s' = agents s \<and>
              created_at s' = created_at s \<and> report s' = report s"
proof -
  have "processReview e sid w = on_error e sid m (snd (review_steps e sid s0 w))"
    by (simp add: processReview_steps [OF assms(1)] assms(2))
  then show ?thesis
    using assms(4) by (simp add: on_error_present [OF assms(3,4)])
qed

text \<open>The claim on a review whose Council call times out: the session fails at progress 10.\<close>

theorem failure_changes_three_fields_witness:
  "getSession pending_world ''rev-0001'' = Some pending_session \<and>
   fst (review_steps (test_env (Inl ''timeout of 120000ms exceeded'') sandbox_down) ''rev-0001''
          pending_session pending_world) =
     Inl ''Council service error: timeout of 120000ms exceeded'' \<and>
   getSession (snd (review_steps (test_env (Inl ''timeout of 120000ms exceeded'') sandbox_down)
          ''rev-0001'' pending_session pending_world)) ''rev-0001'' =
     Some (pending_session\<lparr>status := Analyzing, progress := 10\<rparr>) \<and>
   getSession (snd (processReview (test_env (Inl ''timeout of 120000ms exceeded'') sandbox_down)
          ''rev-0001'' pending_world)) ''rev-0001'' =
     Some (pending_session\<lparr>status := Failed, progress := 10,
             error := Some ''Council service error: timeout of 120000ms exceeded''\<rparr>)"
proof -
  let ?e = "test_env (Inl ''timeout of 120000ms exceeded'') sandbox_down"
  let ?m = "''Council service error: timeout of 120000ms exceeded''"
  let ?s = "pending_session\<lparr>status := Analyzing, progress := 10\<rparr>"
  have c: "(case council ?e \<lparr>cn_endpoint = ''/council/review'',
            cn_data = Review_data (code pending_session) (language pending_session)
               (context_text pending_session) (quality_gates pending_session)\<rparr> of
            Inl m \<Rightarrow> Some (''Council service error: '' @ m)
          | Inr None \<Rightarrow> Some (type_error ''agents'')
          | Inr (Some cr) \<Rightarrow> None) = Some ?m"
    by (simp add: test_env_def)
  note f = review_steps_failed [OF pending_world_session c]
  have h2: "fst (review_steps ?e ''rev-0001'' pending_session pending_world) = Inl ?m"
    by (rule f(1))
  have h3: "getSession (snd (review_steps ?e ''rev-0001'' pending_session pending_world))
              ''rev-0001'' = Some ?s"
    using f(2) by (simp add: test_env_def pending_session_def)
  have h4: "session_id ?s = ''rev-0001''" by simp
  from failure_changes_three_fields [OF pending_world_session(1) h2 h3 h4] h2 h3
  show ?thesis by (simp add: test_env_def pending_session_def)
qed

section \<open>Applying fixes\<close>

text \<open>
  Claim C5 as stated fails: a session that is \<open>completed\<close> but whose analysis
  returned no report is answered 400 \<open>No report available\<close> by the fix route.
\<close>

theorem fix_of_completed_without_report_counterexample:
  "map_option status (getSession (snd (processReview (test_env (Inr (Some bare_json)) sandbox_down)
        ''rev-0001'' pending_world)) ''rev-0001'') = Some Completed \<and>
   fst (apply_fixes (test_env (Inr (Some bare_json)) sandbox_down) ''rev-0001'' None
         (snd (processReview (test_env (Inr (Some bare_json)) sandbox_down)
            ''rev-0001'' pending_world))) = (400, Error_body ''No report available'')"
proof -
  have c: "council (test_env (Inr (Some bare_json)) sandbox_down) \<lparr>cn_endpoint = ''/council/review'',
       cn_data = Review_data (code pending_session) (language pending_session)
          (context_text pending_session) (quality_gates pending_session)\<rparr> =
        Inr (Some bare_json)"
    by (simp add: test_env_def)
  show ?thesis
    using processReview_analysed(2) [OF pending_world_session c]
    by (simp add: apply_fixes_def bare_json_def)
qed

text \<open>
  Claim C5, amended. The fix route looks at the stored report, not at the status. It
  answers 404 for an unknown session and 400 \<open>No report available\<close> for a session
  without a report. When the session has a report with a \<open>priority_fixes\<close> list and
  the Council answers the fix request with a body that is not \<open>null\<close>, it sends
  the findings whose severity is among the requested ones (\<open>critical\<close> and \<open>high\<close>
  by default) to \<open>/council/fix\<close> and answers 200 with the patched output as that
  body has it (a property the body lacks is missing from the output), leaving the
  store as it was; it answers 200 in no other case. Every session value other than a completed
  one that a review stores has no report, so for those the route answers the 400
  error.
\<close>

theorem apply_fixes_by_report:
  "(getSession w sid = None \<longrightarrow>
      apply_fixes e sid prios w = ((404, Error_body ''Session not found''), w)) \<and>
   (\<forall>s. getSession w sid = Some s \<and> report s = None \<longrightarrow>
      apply_fixes e sid prios w = ((400, Error_body ''No report available''), w)) \<and>
   (\<forall>s r fs fr. getSession w sid = Some s \<and> report s = Some r \<and> priority_fixes r = Some fs \<and>
        council e (fix_request s prios fs) = Inr (Some fr) \<longrightarrow>
      apply_fixes e sid prios w =
        ((200, Fix_body \<lparr>fx_session_id = sid, fx_fixes_applied = cj_fixes_applied fr,
                         fx_fixed_code = cj_fixed_code fr, fx_changes = cj_changes fr,
                         fx_language = language s, fx_needs_review = cj_needs_review fr\<rparr>),
         w\<lparr>council_calls := council_calls w @ [fix_request s prios fs]\<rparr>)) \<and>
   (fst (fst (apply_fixes e sid prios w)) = 200 \<longleftrightarrow>
      (\<exists>s r fs fr. getSession w sid = Some s \<and> report s = Some r \<and> priority_fixes r = Some fs \<and>
         council e (fix_request s prios fs) = Inr (Some fr))) \<and>
   (\<forall>s e' rq w0. getSession w sid = Some s \<and> status s \<noteq> Completed \<and>
        s \<in> set (drop (length (redis_sets w0)) (redis_sets (review_lifecycle e' rq w0))) \<longrightarrow>
      apply_fixes e sid prios w = ((400, Error_body ''No report available''), w))"
proof (intro conjI allI impI)
  assume "getSession w sid = None"
  then show "apply_fixes e sid prios w = ((404, Error_body ''Session not found''), w)"
    by (simp add: apply_fixes_def)
next
  fix s assume "getSession w sid = Some s \<and> report s = None"
  then show "apply_fixes e sid prios w = ((400, Error_body ''No report available''), w)"
    by (simp add: apply_fixes_def)
next
  fix s r fs fr
  assume "getSession w sid = Some s \<and> report s = Some r \<and> priority_fixes r = Some fs \<and>
        council e (fix_request s prios fs) = Inr (Some fr)"
  then show "apply_fixes e sid prios w =
        ((200, Fix_body \<lparr>fx_session_id = sid, fx_fixes_applied = cj_fixes_applied fr,
                         fx_fixed_code = cj_fixed_code fr, fx_changes = cj_changes fr,
                         fx_language = language s, fx_needs_review = cj_needs_review fr\<rparr>),
         w\<lparr>council_calls := council_calls w @ [fix_request s prios fs]\<rparr>)"
    by (simp add: apply_fixes_def callCouncil_def fix_request_def Let_def)
next
  show "fst (fst (apply_fixes e sid prios w)) = 200 \<longleftrightarrow>
      (\<exists>s r fs fr. getSession w sid = Some s \<and> report s = Some r \<and> priority_fixes r = Some fs \<and>
         council e (fix_request s prios fs) = Inr (Some fr))"
    by (auto simp add: apply_fixes_def callCouncil_def fix_request_def Let_def
          split: option.splits sum.splits)
next
  fix s e' rq w0
  assume a: "getSession w sid = Some s \<and> status s \<noteq> Completed \<and>
        s \<in> set (drop (length (redis_sets w0)) (redis_sets (review_lifecycle e' rq w0)))"
  then have "report s = None"
    using lifecycle_report_only_completed [of s w0 e' rq] by blast
  with a show "apply_fixes e sid prios w = ((400, Error_body ''No report available''), w)"
    by (simp add: apply_fixes_def)
qed

text \<open>The amended claim on a completed session with a report: only the critical finding is sent.\<close>

theorem apply_fixes_by_report_witness:
  "getSession completed_world ''rev-0001'' =
     Some (pending_session\<lparr>status := Completed, progress := 100, report := Some lint_report\<rparr>) \<and>
   council (test_env (Inr (Some fixed_json)) sandbox_down)
     (fix_request (pending_session\<lparr>status := Completed, progress := 100,
                                   report := Some lint_report\<rparr>) None
        [\<lparr>severity = ''critical'', finding_detail = ''eval of user input''\<rparr>,
         \<lparr>severity = ''low'', finding_detail = ''unused variable''\<rparr>]) = Inr (Some fixed_json) \<and>
   fst (apply_fixes (test_env (Inr (Some fixed_json)) sandbox_down) ''rev-0001'' None
          completed_world) =
     (200, Fix_body \<lparr>fx_session_id = ''rev-0001'', fx_fixes_applied = Some 1,
                     fx_fixed_code = Some ''print(2)'', fx_changes = Some [''removed eval''],
                     fx_language = ''javascript'', fx_needs_review = Some False\<rparr>) \<and>
   council_calls (snd (apply_fixes (test_env (Inr (Some fixed_json)) sandbox_down) ''rev-0001''
          None completed_world)) =
     [\<lparr>cn_endpoint = ''/council/fix'',
       cn_data = Fix_data ''print(1)'' ''javascript''
                   [\<lparr>severity = ''critical'', finding_detail = ''eval of user input''\<rparr>]\<rparr>] \<and>
   getSession (snd (apply_fixes (test_env (Inr (Some fixed_json)) sandbox_down) ''rev-0001''
          None completed_world)) ''rev-0001'' = getSession completed_world ''rev-0001''"
proof -
  let ?e = "test_env (Inr (Some fixed_json)) sandbox_down"
  let ?s = "pending_session\<lparr>status := Completed, progress := 100, report := Some lint_report\<rparr>"
  let ?fs = "[\<lparr>severity = ''critical'', finding_detail = ''eval of user input''\<rparr>,
         \<lparr>severity = ''low'', finding_detail = ''unused variable''\<rparr>]"
  have h1: "getSession completed_world ''rev-0001'' = Some ?s"
    by (simp add: completed_world_def pending_session_def)
  have h2: "report ?s = Some lint_report" by simp
  have h3: "priority_fixes lint_report = Some ?fs" by (simp add: lint_report_def)
  have h4: "council ?e (fix_request ?s None ?fs) = Inr (Some fixed_json)"
    by (simp add: test_env_def)
  from apply_fixes_by_report [of completed_world "''rev-0001''" ?e None] h1 h2 h3 h4
  have "apply_fixes ?e ''rev-0001'' None completed_world =
        ((200, Fix_body \<lparr>fx_session_id = ''rev-0001'', fx_fixes_applied = cj_fixes_applied fixed_json,
                         fx_fixed_code = cj_fixed_code fixed_json, fx_changes = cj_changes fixed_json,
                         fx_language = language ?s, fx_needs_review = cj_needs_review fixed_json\<rparr>),
         completed_world\<lparr>council_calls := council_calls completed_world @ [fix_request ?s None ?fs]\<rparr>)"
    by blast
  with h1 h4 show ?thesis
    by (simp add: fixed_json_def bare_json_def pending_session_def fix_request_def
          completed_world_def empty_world_def)
qed

end
